theory Spec2Isabelle
  imports Complex_Main "HOL-Library.AList"
begin

section \<open>SDK errors (package model)\<close>

text \<open>
  A Go \<^verbatim>\<open>error\<close> interface value is one of: \<^verbatim>\<open>nil\<close>; an error of some type other than
  the SDK's \<^verbatim>\<open>*model.Error\<close> (a network, JSON or URL error of the standard library, kept
  by its text); a \<^verbatim>\<open>*model.Error\<close> that is a nil pointer (an interface value that is not
  \<^verbatim>\<open>nil\<close> itself, since it carries the type); or a \<^verbatim>\<open>*model.Error\<close> pointing to a
  struct, with its five fields. The field \<^verbatim>\<open>Err\<close> is again an error, so the type is
  recursive.
\<close>

type_synonym ErrorCode = string

datatype go_error =
    ErrNil
  | Foreign string
  | NilSdkError
  | SdkError (Code: ErrorCode) (Message: string) (StatusCode: int) (RequestID: string)
      (Err: go_error)

abbreviation ErrCodeHTTPRequestFailed :: ErrorCode where
  "ErrCodeHTTPRequestFailed \<equiv> ''HTTPRequestFailed''"
abbreviation ErrCodeUnknown :: ErrorCode where
  "ErrCodeUnknown \<equiv> ''Unknown''"
abbreviation ErrCodeInvalidParameter :: ErrorCode where
  "ErrCodeInvalidParameter \<equiv> ''InvalidParameter''"
abbreviation ErrCodeServiceUnavailable :: ErrorCode where
  "ErrCodeServiceUnavailable \<equiv> ''ServiceUnavailable''"
abbreviation ErrCodeTimeout :: ErrorCode where
  "ErrCodeTimeout \<equiv> ''Timeout''"
abbreviation ErrCodeRequestLimitExceeded :: ErrorCode where
  "ErrCodeRequestLimitExceeded \<equiv> ''RequestLimitExceeded''"

text \<open>The \<^verbatim>\<open>net/http\<close> status constants the SDK names.\<close>

abbreviation StatusOK :: int where "StatusOK \<equiv> 200"
abbreviation StatusMultipleChoices :: int where "StatusMultipleChoices \<equiv> 300"
abbreviation StatusBadRequest :: int where "StatusBadRequest \<equiv> 400"
abbreviation StatusTooManyRequests :: int where "StatusTooManyRequests \<equiv> 429"
abbreviation StatusInternalServerError :: int where "StatusInternalServerError \<equiv> 500"
abbreviation StatusBadGateway :: int where "StatusBadGateway \<equiv> 502"
abbreviation StatusServiceUnavailable :: int where "StatusServiceUnavailable \<equiv> 503"
abbreviation StatusGatewayTimeout :: int where "StatusGatewayTimeout \<equiv> 504"

definition NewErrorWithStatusCode :: "ErrorCode \<Rightarrow> string \<Rightarrow> int \<Rightarrow> go_error" where
  "NewErrorWithStatusCode code message statusCode = SdkError code message statusCode [] ErrNil"

definition NewErrorWithRequestID :: "ErrorCode \<Rightarrow> string \<Rightarrow> string \<Rightarrow> int \<Rightarrow> go_error" where
  "NewErrorWithRequestID code message requestID statusCode =
     SdkError code message statusCode requestID ErrNil"

definition NewErrorWithCause :: "ErrorCode \<Rightarrow> string \<Rightarrow> go_error \<Rightarrow> int \<Rightarrow> go_error" where
  "NewErrorWithCause code message cause statusCode = SdkError code message statusCode [] cause"

definition NewInvalidParameterError :: "string \<Rightarrow> go_error" where
  "NewInvalidParameterError message =
     NewErrorWithStatusCode ErrCodeInvalidParameter message StatusBadRequest"

text \<open>
  \<^verbatim>\<open>IsRetryableError\<close>: nil and errors that fail the type assertion \<^verbatim>\<open>err.(*Error)\<close> are
  not retryable. A nil \<^verbatim>\<open>*Error\<close> passes both the test \<^verbatim>\<open>err == nil\<close> and the type
  assertion, and \<^verbatim>\<open>sdkErr.StatusCode\<close> then dereferences the nil pointer: the function
  panics, the result \<open>None\<close>. For an SDK error the status switch is tried first, then the
  code switch.
\<close>

fun IsRetryableError :: "go_error \<Rightarrow> bool option" where
  "IsRetryableError ErrNil = Some False"
| "IsRetryableError (Foreign text) = Some False"
| "IsRetryableError NilSdkError = None"
| "IsRetryableError (SdkError code message statusCode requestID cause) =
     (if statusCode = StatusTooManyRequests \<or> statusCode = StatusInternalServerError
         \<or> statusCode = StatusBadGateway \<or> statusCode = StatusServiceUnavailable
         \<or> statusCode = StatusGatewayTimeout then Some True
      else if code = ErrCodeServiceUnavailable \<or> code = ErrCodeTimeout
         \<or> code = ErrCodeRequestLimitExceeded then Some True
      else Some False)"


section \<open>Retry with exponential backoff (package utils)\<close>

text \<open>
  \<^verbatim>\<open>Retry\<close> has three effects besides its result: it invokes the operation \<^verbatim>\<open>fn\<close>, it
  draws from \<^verbatim>\<open>math/rand\<close> and it calls \<^verbatim>\<open>time.Sleep\<close>. The state it runs in holds
  what the operation reads and writes (\<open>app\<close>), the numbers the random source will
  deliver and how many were drawn, and the trace of what \<^verbatim>\<open>Retry\<close> did, oldest first: each
  invocation of \<^verbatim>\<open>fn\<close> with the error it returned and each duration handed to
  \<^verbatim>\<open>time.Sleep\<close>. Durations are \<^verbatim>\<open>time.Duration\<close>: nanoseconds.
\<close>

datatype effect = Invoked go_error | Slept int

record 's world =
  app :: 's
  rand_src :: "nat \<Rightarrow> int"
  rand_pos :: nat
  trace :: "effect list"

definition Millisecond :: int where "Millisecond = 1000000"
definition Second :: int where "Second = 1000 * Millisecond"

definition defaultInitialBackoff :: int where "defaultInitialBackoff = 100 * Millisecond"
definition defaultMaxBackoff :: int where "defaultMaxBackoff = 10 * Second"
definition backoffMultiplier :: int where "backoffMultiplier = 2"

text \<open>
  \<^verbatim>\<open>rand.Int63n(n)\<close> panics for \<open>n \<le> 0\<close> (the result \<open>None\<close>) and otherwise returns a
  number in \<open>[0, n)\<close>: the next number of the source, reduced into that range.
\<close>

definition Int63n :: "int \<Rightarrow> 's world \<Rightarrow> (int \<times> 's world) option" where
  "Int63n n w =
     (if n \<le> 0 then None
      else Some (rand_src w (rand_pos w) mod n, w\<lparr>rand_pos := rand_pos w + 1\<rparr>))"

definition Sleep :: "int \<Rightarrow> 's world \<Rightarrow> 's world" where
  "Sleep d w = w\<lparr>trace := trace w @ [Slept d]\<rparr>"

text \<open>
  The body of \<^verbatim>\<open>if attempt > 0 { ... }\<close>: jitter, the capped sleep, and the next delay.
  The source computes \<^verbatim>\<open>time.Duration(float64(delay) * backoffMultiplier)\<close>; every delay
  the loop reaches is at most ten seconds, far below \<open>2^53\<close> nanoseconds, so the
  conversion to \<^verbatim>\<open>float64\<close> and back is exact and the product is written on integers.
\<close>

definition backoff :: "int \<Rightarrow> 's world \<Rightarrow> (int \<times> 's world) option" where
  "backoff delay w =
     (case Int63n delay w of
        None \<Rightarrow> None
      | Some (jitter, w1) \<Rightarrow>
          let sleepFor = delay + jitter;
              sleepFor = (if sleepFor > defaultMaxBackoff then defaultMaxBackoff else sleepFor);
              w2 = Sleep sleepFor w1;
              next = delay * backoffMultiplier;
              next = (if next > defaultMaxBackoff then defaultMaxBackoff else next)
          in Some (next, w2))"

text \<open>
  One call \<^verbatim>\<open>fn()\<close>: the operation runs on \<open>app\<close> and the call is traced. An
  operation that panics returns \<open>None\<close>; \<^verbatim>\<open>Retry\<close> does not recover, so the panic
  is the result of \<^verbatim>\<open>Retry\<close> too.
\<close>

definition invoke ::
  "('s \<Rightarrow> (go_error \<times> 's) option) \<Rightarrow> 's world \<Rightarrow> (go_error \<times> 's world) option" where
  "invoke fn w =
     (case fn (app w) of
        None \<Rightarrow> None
      | Some (err, s') \<Rightarrow> Some (err, w\<lparr>app := s', trace := trace w @ [Invoked err]\<rparr>))"

text \<open>
  The \<^verbatim>\<open>for attempt := 0; attempt <= maxRetries; attempt++\<close> loop. \<^verbatim>\<open>shouldRetry\<close> may be
  a nil func (\<open>None\<close>); when it is not, it is called on every non-nil error, also on
  the error of the last attempt, and like the operation it may panic instead of
  answering. The result \<open>None\<close> is a panic, of \<^verbatim>\<open>rand.Int63n\<close>, of the operation or of
  \<^verbatim>\<open>shouldRetry\<close>.
\<close>

function retry_loop ::
  "int \<Rightarrow> ('s \<Rightarrow> (go_error \<times> 's) option) \<Rightarrow> (go_error \<Rightarrow> bool option) option \<Rightarrow> int \<Rightarrow>
   int \<Rightarrow> go_error \<Rightarrow> 's world \<Rightarrow> (go_error \<times> 's world) option" where
  "retry_loop maxRetries fn shouldRetry attempt delay lastErr w =
     (if attempt \<le> maxRetries then
        (case (if attempt > 0 then backoff delay w else Some (delay, w)) of
           None \<Rightarrow> None
         | Some (delay', w1) \<Rightarrow>
             (case invoke fn w1 of
                None \<Rightarrow> None
              | Some (err, w2) \<Rightarrow>
                  if err \<noteq> ErrNil then
                    (case (case shouldRetry of None \<Rightarrow> Some True | Some p \<Rightarrow> p err) of
                       None \<Rightarrow> None
                     | Some again \<Rightarrow>
                         if \<not> again then Some (err, w2)
                         else if attempt = maxRetries then Some (err, w2)
                         else retry_loop maxRetries fn shouldRetry (attempt + 1) delay' err w2)
                  else Some (ErrNil, w2)))
      else Some (lastErr, w))"
  by pat_completeness auto
termination
  by (relation "measure (\<lambda>(maxRetries, fn, shouldRetry, attempt, delay, lastErr, w).
        nat (maxRetries - attempt))") auto

declare retry_loop.simps [simp del]

definition Retry ::
  "int \<Rightarrow> ('s \<Rightarrow> (go_error \<times> 's) option) \<Rightarrow> (go_error \<Rightarrow> bool option) option \<Rightarrow>
   's world \<Rightarrow> (go_error \<times> 's world) option" where
  "Retry maxRetries fn shouldRetry w =
     (let maxRetries = (if maxRetries < 0 then 0 else maxRetries)
      in retry_loop maxRetries fn shouldRetry 0 defaultInitialBackoff ErrNil w)"

text \<open>
  What the claims about \<^verbatim>\<open>Retry\<close> speak of: an operation that returns (never panics)
  and a \<^verbatim>\<open>shouldRetry\<close>, nil or a predicate that answers (never panics); the number of
  invocations in a trace; the state and the error of such an operation when it is invoked
  again and again; and an invocation that ends the loop on its own, by succeeding or by
  failing with an error that \<^verbatim>\<open>shouldRetry\<close> rejects.
\<close>

definition returning :: "('s \<Rightarrow> go_error \<times> 's) \<Rightarrow> 's \<Rightarrow> (go_error \<times> 's) option" where
  "returning fn s = Some (fn s)"

definition retryable :: "go_error \<Rightarrow> bool" where
  "retryable err = (IsRetryableError err = Some True)"

definition answering ::
  "(go_error \<Rightarrow> bool) option \<Rightarrow> (go_error \<Rightarrow> bool option) option" where
  "answering shouldRetry = map_option (\<lambda>p err. Some (p err)) shouldRetry"

fun is_Invoked :: "effect \<Rightarrow> bool" where
  "is_Invoked (Invoked err) = True"
| "is_Invoked (Slept d) = False"

definition invocations :: "effect list \<Rightarrow> nat" where
  "invocations tr = length (filter is_Invoked tr)"

fun state_after :: "('s \<Rightarrow> go_error \<times> 's) \<Rightarrow> 's \<Rightarrow> nat \<Rightarrow> 's" where
  "state_after fn s 0 = s"
| "state_after fn s (Suc k) = state_after fn (snd (fn s)) k"

definition error_of :: "('s \<Rightarrow> go_error \<times> 's) \<Rightarrow> 's \<Rightarrow> nat \<Rightarrow> go_error" where
  "error_of fn s k = fst (fn (state_after fn s k))"

definition final :: "(go_error \<Rightarrow> bool) option \<Rightarrow> go_error \<Rightarrow> bool" where
  "final shouldRetry err =
     (err = ErrNil \<or> (case shouldRetry of None \<Rightarrow> False | Some p \<Rightarrow> \<not> p err))"

text \<open>
  The backoff schedule in the words of the specification, for the sleep before retry
  \<open>k \<ge> 1\<close> (between attempt \<open>k\<close> and attempt \<open>k + 1\<close>): the delay starts at \<open>base\<close> and
  doubles, capped; the jitter is the draw reduced below the delay; the sleep is their
  capped sum. \<open>sleep_at\<close> is the same schedule started from any delay.
\<close>

definition sleep_at :: "int \<Rightarrow> (nat \<Rightarrow> int) \<Rightarrow> nat \<Rightarrow> nat \<Rightarrow> int" where
  "sleep_at d src pos i =
     min (min (d * 2 ^ i) defaultMaxBackoff
          + src (pos + i) mod min (d * 2 ^ i) defaultMaxBackoff)
       defaultMaxBackoff"

definition nth_delay :: "nat \<Rightarrow> int" where
  "nth_delay k = min (defaultInitialBackoff * 2 ^ (k - 1)) defaultMaxBackoff"

definition nth_jitter :: "'s world \<Rightarrow> nat \<Rightarrow> int" where
  "nth_jitter w k = rand_src w (rand_pos w + (k - 1)) mod nth_delay k"

definition nth_sleep :: "'s world \<Rightarrow> nat \<Rightarrow> int" where
  "nth_sleep w k = min (nth_delay k + nth_jitter w k) defaultMaxBackoff"

section \<open>JSON helpers and the response decoder (package utils)\<close>

text \<open>
  \<^verbatim>\<open>encoding/json\<close> is outside the SDK; the functions below take it as a parameter.
  A decoder \<open>dec\<close> stands for \<^verbatim>\<open>json.NewDecoder(bytes.NewReader(input))\<close> after
  \<^verbatim>\<open>UseNumber()\<close>: given the input and the object the target points to, it returns the
  error of \<^verbatim>\<open>Decode\<close> and the object as \<^verbatim>\<open>Decode\<close> left it. A nil target is \<open>None\<close>.
\<close>

definition ParseJSONUseNumber ::
  "(string \<Rightarrow> 'a \<Rightarrow> go_error \<times> 'a) \<Rightarrow> string \<Rightarrow> 'a option \<Rightarrow> go_error \<times> 'a option" where
  "ParseJSONUseNumber dec input target =
     (case target of
        None \<Rightarrow> (Foreign ''ParseJSONUseNumber: target must not be nil'', None)
      | Some obj \<Rightarrow> (case dec input obj of (err, obj') \<Rightarrow> (err, Some obj')))"

definition SerializeToJSON :: "('q \<Rightarrow> go_error + string) \<Rightarrow> 'q \<Rightarrow> go_error + string" where
  "SerializeToJSON marshal source = marshal source"

text \<open>
  An HTTP response as \<^verbatim>\<open>ParseResponse\<close> reads it: the status code and what
  \<^verbatim>\<open>io.ReadAll(resp.Body)\<close> returns, an error or the bytes of the body. On a status
  outside \<open>[200, 300)\<close> the cause handed to the generic error is the variable \<^verbatim>\<open>err\<close> of
  \<^verbatim>\<open>io.ReadAll\<close>, which is nil at that point.
\<close>

record http_response =
  RespStatusCode :: int
  RespBody :: "go_error + string"

text \<open>The anonymous struct \<^verbatim>\<open>errResp\<close> with its fields \<^verbatim>\<open>Code\<close>, \<^verbatim>\<open>Message\<close>, \<^verbatim>\<open>RequestID\<close>.\<close>

record errResp =
  errResp_Code :: string
  errResp_Message :: string
  errResp_RequestID :: string

definition errResp_zero :: errResp where
  "errResp_zero = \<lparr>errResp_Code = [], errResp_Message = [], errResp_RequestID = []\<rparr>"

text \<open>\<^verbatim>\<open>%d\<close> of \<^verbatim>\<open>fmt.Sprintf\<close>: the decimal digits, with a minus sign below zero.\<close>

fun format_nat :: "nat \<Rightarrow> string" where
  "format_nat n =
     (if n < 10 then [''0123456789'' ! n]
      else format_nat (n div 10) @ [''0123456789'' ! (n mod 10)])"

declare format_nat.simps [simp del]

definition format_int :: "int \<Rightarrow> string" where
  "format_int i =
     (if i < 0 then CHR ''-'' # format_nat (nat (- i)) else format_nat (nat i))"

definition ParseResponse ::
  "(string \<Rightarrow> errResp \<Rightarrow> go_error \<times> errResp) \<Rightarrow> (string \<Rightarrow> 't \<Rightarrow> go_error \<times> 't) \<Rightarrow>
   http_response \<Rightarrow> 't option \<Rightarrow> go_error \<times> 't option" where
  "ParseResponse dec_errResp dec resp result =
     (case RespBody resp of
        Inl err \<Rightarrow>
          (NewErrorWithCause ErrCodeUnknown ''failed to read response body'' err
             StatusInternalServerError, result)
      | Inr body \<Rightarrow>
          if RespStatusCode resp < StatusOK \<or> RespStatusCode resp \<ge> StatusMultipleChoices then
            (case ParseJSONUseNumber dec_errResp body (Some errResp_zero) of
               (parseErr, Some errResp) \<Rightarrow>
                 if parseErr = ErrNil
                    \<and> (errResp_Code errResp \<noteq> [] \<or> errResp_Message errResp \<noteq> []) then
                   (NewErrorWithRequestID (errResp_Code errResp) (errResp_Message errResp)
                      (errResp_RequestID errResp) (RespStatusCode resp), result)
                 else
                   (NewErrorWithCause ErrCodeUnknown
                      (''unexpected '' @ format_int (RespStatusCode resp) @ '' response: ''
                         @ body)
                      ErrNil (RespStatusCode resp), result)
             | (parseErr, None) \<Rightarrow>
                 (NewErrorWithCause ErrCodeUnknown
                    (''unexpected '' @ format_int (RespStatusCode resp) @ '' response: ''
                       @ body)
                    ErrNil (RespStatusCode resp), result))
          else if result = None \<or> length body = 0 then (ErrNil, result)
          else
            (case ParseJSONUseNumber dec body result of
               (err, result') \<Rightarrow>
                 if err \<noteq> ErrNil then
                   (NewErrorWithCause ErrCodeUnknown ''failed to unmarshal response body'' err
                      (RespStatusCode resp), result')
                 else (ErrNil, result')))"

section \<open>Configuration, credentials and the transport (package vector)\<close>

text \<open>
  An \<^verbatim>\<open>*http.Client\<close> is either the one \<^verbatim>\<open>newTransport\<close> creates, with its timeout, or
  one the caller supplied, known by a number.
\<close>

datatype http_client = HttpClient int | CustomClient nat

record Config =
  Endpoint :: string
  Region :: string
  Timeout :: int
  MaxRetries :: int
  HTTPClient :: "http_client option"
  UserAgent :: string

definition Version :: string where "Version = ''0.1.0''"

definition DefaultConfig :: Config where
  "DefaultConfig =
     \<lparr>Endpoint = ''https://api.vector.bytedance.com'', Region = ''cn-beijing'',
      Timeout = 30 * Second, MaxRetries = 3, HTTPClient = None, UserAgent = []\<rparr>"

type_synonym ClientOption = "Config \<Rightarrow> Config"

definition WithEndpoint :: "string \<Rightarrow> ClientOption" where
  "WithEndpoint endpoint = (\<lambda>c. c\<lparr>Endpoint := endpoint\<rparr>)"
definition WithRegion :: "string \<Rightarrow> ClientOption" where
  "WithRegion region = (\<lambda>c. c\<lparr>Region := region\<rparr>)"
definition WithTimeout :: "int \<Rightarrow> ClientOption" where
  "WithTimeout timeout = (\<lambda>c. c\<lparr>Timeout := timeout\<rparr>)"
definition WithMaxRetries :: "int \<Rightarrow> ClientOption" where
  "WithMaxRetries maxRetries = (\<lambda>c. c\<lparr>MaxRetries := maxRetries\<rparr>)"
definition WithHTTPClient :: "http_client option \<Rightarrow> ClientOption" where
  "WithHTTPClient httpClient = (\<lambda>c. c\<lparr>HTTPClient := httpClient\<rparr>)"
definition WithUserAgent :: "string \<Rightarrow> ClientOption" where
  "WithUserAgent userAgent = (\<lambda>c. c\<lparr>UserAgent := userAgent\<rparr>)"

datatype authKind = authKindNone | authKindIAM | authKindAPIKey

record Auth =
  kind :: authKind
  accessKey :: string
  secretKey :: string
  apiKey :: string

definition AuthNone :: Auth where
  "AuthNone = \<lparr>kind = authKindNone, accessKey = [], secretKey = [], apiKey = []\<rparr>"

definition AuthIAM :: "string \<Rightarrow> string \<Rightarrow> Auth" where
  "AuthIAM ak sk = \<lparr>kind = authKindIAM, accessKey = ak, secretKey = sk, apiKey = []\<rparr>"

definition AuthAPIKey :: "string \<Rightarrow> Auth" where
  "AuthAPIKey key = \<lparr>kind = authKindAPIKey, accessKey = [], secretKey = [], apiKey = key\<rparr>"

text \<open>
  A \<^verbatim>\<open>context.Context\<close> by its identity, a parsed \<^verbatim>\<open>url.URL\<close> by the fields the SDK
  touches, and an \<^verbatim>\<open>*http.Request\<close>: context, method, URL text, headers (canonical key
  and value, in the order they were first set) and the body bytes (\<open>None\<close> for a nil
  reader).
\<close>

datatype ctx = Background | Cancellable nat

record url =
  Scheme :: string
  Host :: string
  Path :: string
  RawQuery :: string

record http_request =
  Context :: ctx
  Method :: string
  URL :: string
  Header :: "(string \<times> string) list"
  Body :: "string option"

text \<open>\<^verbatim>\<open>req.Header.Set(key, value)\<close>; \<open>canon\<close> is \<^verbatim>\<open>textproto.CanonicalMIMEHeaderKey\<close>.\<close>

definition Header_Set ::
  "(string \<Rightarrow> string) \<Rightarrow> string \<Rightarrow> string \<Rightarrow> http_request \<Rightarrow> http_request" where
  "Header_Set canon key v req = req\<lparr>Header := AList.update (canon key) v (Header req)\<rparr>"

text \<open>
  The three authenticators: \<^verbatim>\<open>noAuth{}\<close>, \<^verbatim>\<open>apiKeyAuth{token}\<close> and
  \<^verbatim>\<open>iamAuth{ak, sk, region}\<close>. \<open>sign\<close> is \<^verbatim>\<open>base.Credentials.Sign\<close> of the Volcengine
  SDK, applied to the credentials (access key id, secret access key, service, region) and
  the request; it reads the clock, which is part of the world \<open>x\<close> outside the process.
\<close>

datatype authenticator =
    noAuth
  | apiKeyAuth string
  | iamAuth string string string

definition defaultRegion :: string where "defaultRegion = ''cn-beijing''"
definition defaultService :: string where "defaultService = ''vikingdb''"

definition SignRequestWithRegion ::
  "(string \<Rightarrow> string \<Rightarrow> string \<Rightarrow> string \<Rightarrow> http_request \<Rightarrow> 'x \<Rightarrow> http_request) \<Rightarrow>
   http_request \<Rightarrow> string \<Rightarrow> string \<Rightarrow> string \<Rightarrow> 'x \<Rightarrow> http_request" where
  "SignRequestWithRegion sign req ak sk region x = sign ak sk defaultService region req x"

fun authenticator_apply ::
  "(string \<Rightarrow> string) \<Rightarrow>
   (string \<Rightarrow> string \<Rightarrow> string \<Rightarrow> string \<Rightarrow> http_request \<Rightarrow> 'x \<Rightarrow> http_request) \<Rightarrow>
   authenticator \<Rightarrow> http_request \<Rightarrow> 'x \<Rightarrow> go_error + http_request" where
  "authenticator_apply canon sign noAuth req x = Inr req"
| "authenticator_apply canon sign (apiKeyAuth token) req x =
     (if token = [] then Inr req
      else Inr (Header_Set canon ''Authorization'' (''Bearer '' @ token) req))"
| "authenticator_apply canon sign (iamAuth ak sk region) req x =
     (if ak = [] \<or> sk = [] then
        Inl (NewInvalidParameterError ''access key and secret key cannot be empty'')
      else Inr (SignRequestWithRegion sign req ak sk region x))"

record transport =
  config :: Config
  httpClient :: http_client
  baseURL :: url
  auth :: authenticator
  userAgent :: string

text \<open>
  \<^verbatim>\<open>newTransport\<close>; \<open>url_Parse\<close> is \<^verbatim>\<open>url.Parse\<close>. The \<^verbatim>\<open>default:\<close> branch of the switch
  is taken by \<^verbatim>\<open>authKindNone\<close>.
\<close>

definition newTransport ::
  "(string \<Rightarrow> go_error + url) \<Rightarrow> Config \<Rightarrow> Auth \<Rightarrow> go_error + transport" where
  "newTransport url_Parse cfg authConfig =
     (if Endpoint cfg = [] then Inl (NewInvalidParameterError ''endpoint cannot be empty'')
      else
        let defaults = DefaultConfig in
        case url_Parse (Endpoint cfg) of
          Inl err \<Rightarrow>
            Inl (NewErrorWithCause ErrCodeInvalidParameter ''invalid endpoint'' err
                   StatusBadRequest)
        | Inr parsed \<Rightarrow>
            let baseURL' = (if Scheme parsed = [] then parsed\<lparr>Scheme := ''https''\<rparr> else parsed);
                cfg = (if Region cfg = [] then cfg\<lparr>Region := Region defaults\<rparr> else cfg);
                cfg = (if Timeout cfg \<le> 0 then cfg\<lparr>Timeout := Timeout defaults\<rparr> else cfg);
                httpClient' =
                  (case HTTPClient cfg of None \<Rightarrow> HttpClient (Timeout cfg) | Some c \<Rightarrow> c);
                userAgent' =
                  (if UserAgent cfg = [] then ''vikingdb-go-sdk/'' @ Version
                   else UserAgent cfg);
                chosen =
                  (case kind authConfig of
                     authKindIAM \<Rightarrow>
                       if accessKey authConfig = [] \<or> secretKey authConfig = [] then
                         Inl (NewInvalidParameterError
                                ''access key and secret key cannot be empty'')
                       else Inr (iamAuth (accessKey authConfig) (secretKey authConfig)
                                   (Region cfg))
                   | authKindAPIKey \<Rightarrow>
                       if apiKey authConfig = [] then
                         Inl (NewInvalidParameterError ''api key cannot be empty'')
                       else Inr (apiKeyAuth (apiKey authConfig))
                   | authKindNone \<Rightarrow> Inl (NewInvalidParameterError ''no auth''))
            in case chosen of
                 Inl err \<Rightarrow> Inl err
               | Inr auth' \<Rightarrow>
                   let cfg = (if MaxRetries cfg < 0 then cfg\<lparr>MaxRetries := 0\<rparr> else cfg)
                   in Inr \<lparr>config = cfg, httpClient = httpClient', baseURL = baseURL',
                           auth = auth', userAgent = userAgent'\<rparr>)"

text \<open>\<^verbatim>\<open>New\<close>: the options are applied to the default configuration in order.\<close>

datatype Client = Client transport

definition New ::
  "(string \<Rightarrow> go_error + url) \<Rightarrow> Auth \<Rightarrow> ClientOption list \<Rightarrow> go_error + Client" where
  "New url_Parse authConfig opts =
     (let cfg = fold (\<lambda>opt cfg. opt cfg) opts DefaultConfig
      in case newTransport url_Parse cfg authConfig of
           Inl err \<Rightarrow> Inl err
         | Inr t \<Rightarrow> Inr (Client t))"

section \<open>Requests (package vector)\<close>

text \<open>
  \<^verbatim>\<open>RequestOptions\<close> with its fields \<^verbatim>\<open>MaxRetries\<close>, \<^verbatim>\<open>Headers\<close>, \<^verbatim>\<open>Query\<close> and
  \<^verbatim>\<open>RequestID\<close>. The two Go maps are association lists with distinct keys; the list order
  stands for the order in which \<^verbatim>\<open>range\<close> visits the map.
\<close>

record RequestOptions =
  opt_MaxRetries :: int
  Headers :: "(string \<times> string) list"
  Query :: "(string \<times> string) list"
  opt_RequestID :: string

type_synonym RequestOption = "RequestOptions \<Rightarrow> RequestOptions"

definition defaultRequestOptions :: RequestOptions where
  "defaultRequestOptions =
     \<lparr>opt_MaxRetries = 0, Headers = [], Query = [], opt_RequestID = []\<rparr>"

definition WithRequestMaxRetries :: "int \<Rightarrow> RequestOption" where
  "WithRequestMaxRetries maxRetries = (\<lambda>ro. ro\<lparr>opt_MaxRetries := maxRetries\<rparr>)"

definition WithRequestHeader :: "string \<Rightarrow> string \<Rightarrow> RequestOption" where
  "WithRequestHeader key v = (\<lambda>ro. ro\<lparr>Headers := AList.update key v (Headers ro)\<rparr>)"

definition WithRequestHeaders :: "(string \<times> string) list \<Rightarrow> RequestOption" where
  "WithRequestHeaders headers =
     (\<lambda>ro. if length headers = 0 then ro
           else ro\<lparr>Headers := fold (\<lambda>(k, v). AList.update k v) headers (Headers ro)\<rparr>)"

definition WithRequestQueryParam :: "string \<Rightarrow> string \<Rightarrow> RequestOption" where
  "WithRequestQueryParam key v = (\<lambda>ro. ro\<lparr>Query := AList.update key v (Query ro)\<rparr>)"

definition WithRequestQueryParams :: "(string \<times> string) list \<Rightarrow> RequestOption" where
  "WithRequestQueryParams params =
     (\<lambda>ro. if length params = 0 then ro
           else ro\<lparr>Query := fold (\<lambda>(k, v). AList.update k v) params (Query ro)\<rparr>)"

definition WithRequestID :: "string \<Rightarrow> RequestOption" where
  "WithRequestID requestID = (\<lambda>ro. ro\<lparr>opt_RequestID := requestID\<rparr>)"

definition requestIDHeader :: string where "requestIDHeader = ''X-Tt-Logid''"

text \<open>
  What a call works on besides \<^verbatim>\<open>Retry\<close>'s own state: the world outside the process
  (network, servers, clock), the object \<^verbatim>\<open>response\<close> points to (\<open>None\<close> for a nil
  \<^verbatim>\<open>response\<close>), and a log of the calls that leave the SDK, in the order the source makes
  them: \<^verbatim>\<open>json.Marshal\<close> through \<^verbatim>\<open>SerializeToJSON\<close>, \<^verbatim>\<open>c.auth.apply(req)\<close> with the
  request it is given, and \<^verbatim>\<open>client.Do(req)\<close> through \<^verbatim>\<open>DoHTTPRequest\<close> with the request
  that is sent.
\<close>

datatype event = Serialized | Authenticated http_request | Sent http_request

record ('t, 'x) call_state =
  remote :: 'x
  target :: "'t option"
  events :: "event list"

definition logged :: "event \<Rightarrow> ('t, 'x) call_state \<Rightarrow> ('t, 'x) call_state" where
  "logged ev s = s\<lparr>events := events s @ [ev]\<rparr>"

text \<open>
  The libraries the transport calls, as parameters: \<^verbatim>\<open>net/url\<close> (\<^verbatim>\<open>ResolveReference\<close>
  with a path; \<^verbatim>\<open>Query\<close>, \<^verbatim>\<open>Set\<close> for every pair and \<^verbatim>\<open>Encode\<close>; \<^verbatim>\<open>String\<close>), the
  validation of method and URL text in \<^verbatim>\<open>http.NewRequestWithContext\<close> (\<open>ErrNil\<close> when
  both are accepted), \<^verbatim>\<open>textproto.CanonicalMIMEHeaderKey\<close>, the Volcengine signer,
  \<^verbatim>\<open>http.Client.Do\<close> (an error or a response, and the world after the exchange) and
  \<^verbatim>\<open>encoding/json\<close> for the request type \<open>'q\<close>, the error envelope and the response
  type \<open>'t\<close>.
\<close>

record ('q, 't, 'x) platform =
  url_ResolveReference :: "url \<Rightarrow> string \<Rightarrow> url"
  url_SetQuery :: "url \<Rightarrow> (string \<times> string) list \<Rightarrow> url"
  url_String :: "url \<Rightarrow> string"
  http_NewRequest_error :: "string \<Rightarrow> string \<Rightarrow> go_error"
  CanonicalMIMEHeaderKey :: "string \<Rightarrow> string"
  credentials_Sign ::
    "string \<Rightarrow> string \<Rightarrow> string \<Rightarrow> string \<Rightarrow> http_request \<Rightarrow> 'x \<Rightarrow> http_request"
  client_Do :: "http_client \<Rightarrow> http_request \<Rightarrow> 'x \<Rightarrow> (go_error + http_response) \<times> 'x"
  json_Marshal :: "'q \<Rightarrow> go_error + string"
  json_Decode_errResp :: "string \<Rightarrow> errResp \<Rightarrow> go_error \<times> errResp"
  json_Decode :: "string \<Rightarrow> 't \<Rightarrow> go_error \<times> 't"

text \<open>
  \<^verbatim>\<open>http.NewRequestWithContext(ctx, method, url, buf)\<close> as \<^verbatim>\<open>buildRequest\<close> calls it,
  with \<^verbatim>\<open>buf\<close> of type \<^verbatim>\<open>*bytes.Reader\<close>. An empty method is GET; a method or URL that is
  not accepted is an error. A nil \<^verbatim>\<open>buf\<close> (\<open>None\<close>) converts to a non-nil
  \<^verbatim>\<open>io.Reader\<close> holding a nil pointer, whose length the constructor then reads: a nil
  dereference, the panic \<open>None\<close>.
\<close>

definition NewRequestWithContext ::
  "(string \<Rightarrow> string \<Rightarrow> go_error) \<Rightarrow> ctx \<Rightarrow> string \<Rightarrow> string \<Rightarrow> string option \<Rightarrow>
   (go_error + http_request) option" where
  "NewRequestWithContext check c method' url' buf =
     (let method' = (if method' = [] then ''GET'' else method') in
      if check method' url' \<noteq> ErrNil then Some (Inl (check method' url'))
      else
        case buf of
          None \<Rightarrow> None
        | Some bytes \<Rightarrow>
            Some (Inr \<lparr>Context = c, Method = method', URL = url', Header = [],
                       Body = Some bytes\<rparr>))"

text \<open>
  \<^verbatim>\<open>buildRequest\<close> in its three steps: the target URL with the query parameters of the
  call, the request with the default headers, the headers of the call and the request id,
  and the authenticator applied to that request.
\<close>

definition buildRequest_url ::
  "('q, 't, 'x) platform \<Rightarrow> transport \<Rightarrow> string \<Rightarrow> RequestOptions \<Rightarrow> string" where
  "buildRequest_url P c path' opts =
     (let targetURL = url_ResolveReference P (baseURL c) path';
          targetURL =
            (if length (Query opts) > 0 then url_SetQuery P targetURL (Query opts)
             else targetURL)
      in url_String P targetURL)"

definition buildRequest_headers ::
  "('q, 't, 'x) platform \<Rightarrow> transport \<Rightarrow> string \<Rightarrow> RequestOptions \<Rightarrow> http_request \<Rightarrow>
   http_request" where
  "buildRequest_headers P c body opts req =
     (let set = Header_Set (CanonicalMIMEHeaderKey P);
          req = (if length body > 0 then set ''Content-Type'' ''application/json'' req
                 else req);
          req = set ''Accept'' ''application/json'' req;
          req = (if userAgent c \<noteq> [] then set ''User-Agent'' (userAgent c) req else req);
          req = fold (\<lambda>(k, v). set k v) (Headers opts) req;
          req = (if opt_RequestID opts \<noteq> [] then
                   set requestIDHeader (opt_RequestID opts) req
                 else req)
      in req)"

definition buildRequest ::
  "('q, 't, 'x) platform \<Rightarrow> transport \<Rightarrow> ctx \<Rightarrow> string \<Rightarrow> string \<Rightarrow> string \<Rightarrow> RequestOptions \<Rightarrow>
   ('t, 'x) call_state \<Rightarrow> ((go_error + http_request) \<times> ('t, 'x) call_state) option" where
  "buildRequest P c cx method' path' body opts s =
     (let buf = (if length body > 0 then Some body else None)
      in case NewRequestWithContext (http_NewRequest_error P) cx method'
                (buildRequest_url P c path' opts) buf of
           None \<Rightarrow> None
         | Some (Inl err) \<Rightarrow>
             Some (Inl (NewErrorWithCause ErrCodeUnknown ''failed to create request'' err
                          StatusBadRequest), s)
         | Some (Inr req) \<Rightarrow>
             let req = buildRequest_headers P c body opts req
             in case authenticator_apply (CanonicalMIMEHeaderKey P) (credentials_Sign P)
                       (auth c) req (remote s) of
                  Inl err \<Rightarrow> Some (Inl err, logged (Authenticated req) s)
                | Inr signedReq \<Rightarrow> Some (Inr signedReq, logged (Authenticated req) s))"

text \<open>
  \<^verbatim>\<open>DoHTTPRequest\<close>: \<open>send\<close> is \<^verbatim>\<open>client.Do\<close>; it returns \<open>Inl\<close> with its non-nil error
  or \<open>Inr\<close> with the response.
\<close>

definition DoHTTPRequest ::
  "(http_client \<Rightarrow> http_request \<Rightarrow> 'x \<Rightarrow> (go_error + http_response) \<times> 'x) \<Rightarrow>
   http_client \<Rightarrow> http_request \<Rightarrow> 'x \<Rightarrow> (go_error + http_response) \<times> 'x" where
  "DoHTTPRequest send client req x =
     (case send client req x of
        (Inl err, x') \<Rightarrow>
          (Inl (NewErrorWithCause ErrCodeHTTPRequestFailed ''failed to execute http request''
                  err StatusServiceUnavailable), x')
      | (Inr resp, x') \<Rightarrow> (Inr resp, x'))"

text \<open>
  The closure \<^verbatim>\<open>doRequest\<close> hands to \<^verbatim>\<open>utils.Retry\<close>: one attempt. The deferred
  \<^verbatim>\<open>resp.Body.Close()\<close> releases the connection and changes nothing the model holds.
\<close>

definition doRequest_attempt ::
  "('q, 't, 'x) platform \<Rightarrow> transport \<Rightarrow> ctx \<Rightarrow> string \<Rightarrow> string \<Rightarrow> string \<Rightarrow> RequestOptions \<Rightarrow>
   ('t, 'x) call_state \<Rightarrow> (go_error \<times> ('t, 'x) call_state) option" where
  "doRequest_attempt P c cx method' path' body requestOpts s =
     (case buildRequest P c cx method' path' body requestOpts s of
        None \<Rightarrow> None
      | Some (Inl err, s1) \<Rightarrow> Some (err, s1)
      | Some (Inr req, s1) \<Rightarrow>
          (case DoHTTPRequest (client_Do P) (httpClient c) req (remote s1) of
             (Inl err, x') \<Rightarrow> Some (err, logged (Sent req) (s1\<lparr>remote := x'\<rparr>))
           | (Inr resp, x') \<Rightarrow>
               (case ParseResponse (json_Decode_errResp P) (json_Decode P) resp (target s1) of
                  (err, result') \<Rightarrow>
                    Some (err, logged (Sent req) (s1\<lparr>remote := x', target := result'\<rparr>)))))"

text \<open>
  \<^verbatim>\<open>doRequest\<close>. A nil \<^verbatim>\<open>ctx\<close> or \<^verbatim>\<open>request\<close> is \<open>None\<close>; the \<^verbatim>\<open>response\<close> pointer
  is the \<open>target\<close> of the state.
\<close>

definition doRequest ::
  "('q, 't, 'x) platform \<Rightarrow> transport \<Rightarrow> ctx option \<Rightarrow> string \<Rightarrow> string \<Rightarrow> 'q option \<Rightarrow>
   RequestOption list \<Rightarrow> ('t, 'x) call_state world \<Rightarrow>
   (go_error \<times> ('t, 'x) call_state world) option" where
  "doRequest P c cx method' path' request opts w =
     (let cx = (case cx of None \<Rightarrow> Background | Some given \<Rightarrow> given);
          requestOpts = fold (\<lambda>opt ro. opt ro) opts defaultRequestOptions;
          retries = opt_MaxRetries requestOpts;
          retries = (if retries \<le> 0 then MaxRetries (config c) else retries);
          retries = (if retries < 0 then 0 else retries)
      in case request of
           None \<Rightarrow>
             Retry retries (doRequest_attempt P c cx method' path' [] requestOpts)
               (Some IsRetryableError) w
         | Some source \<Rightarrow>
             (case SerializeToJSON (json_Marshal P) source of
                Inl err \<Rightarrow>
                  Some (NewErrorWithCause ErrCodeInvalidParameter ''failed to marshal request''
                          err StatusBadRequest,
                        w\<lparr>app := logged Serialized (app w)\<rparr>)
              | Inr serialized \<Rightarrow>
                  Retry retries
                    (doRequest_attempt P c cx method' path' serialized requestOpts)
                    (Some IsRetryableError) (w\<lparr>app := logged Serialized (app w)\<rparr>)))"

text \<open>
  What the claims about a call speak of. Whether \<^verbatim>\<open>net/http\<close> accepts the method and the
  URL of this call; the request \<^verbatim>\<open>buildRequest\<close> then creates from the body and hands to
  the authenticator; what one attempt that starts in the world \<open>x\<close> adds to the log (that
  request as it was given to the authenticator and, when the authenticator returned a
  request and no error, the authenticator's request as it was sent); the world such an
  attempt leaves behind; and the error of \<^verbatim>\<open>client.Do\<close> in such an attempt, when the
  exchange takes place and fails.
\<close>

definition accepted ::
  "('q, 't, 'x) platform \<Rightarrow> transport \<Rightarrow> string \<Rightarrow> string \<Rightarrow> RequestOptions \<Rightarrow> bool" where
  "accepted P c method' path' opts =
     (http_NewRequest_error P (if method' = [] then ''GET'' else method')
        (buildRequest_url P c path' opts) = ErrNil)"

definition built_request ::
  "('q, 't, 'x) platform \<Rightarrow> transport \<Rightarrow> ctx \<Rightarrow> string \<Rightarrow> string \<Rightarrow> string \<Rightarrow> RequestOptions \<Rightarrow>
   http_request" where
  "built_request P c cx method' path' body opts =
     buildRequest_headers P c body opts
       \<lparr>Context = cx, Method = (if method' = [] then ''GET'' else method'),
        URL = buildRequest_url P c path' opts, Header = [], Body = Some body\<rparr>"

definition attempt_log ::
  "('q, 't, 'x) platform \<Rightarrow> transport \<Rightarrow> http_request \<Rightarrow> 'x \<Rightarrow> event list" where
  "attempt_log P c req x =
     (case authenticator_apply (CanonicalMIMEHeaderKey P) (credentials_Sign P) (auth c) req x of
        Inl err \<Rightarrow> [Authenticated req]
      | Inr signedReq \<Rightarrow> [Authenticated req, Sent signedReq])"

definition world_after ::
  "('q, 't, 'x) platform \<Rightarrow> transport \<Rightarrow> http_request \<Rightarrow> 'x \<Rightarrow> 'x" where
  "world_after P c req x =
     (case authenticator_apply (CanonicalMIMEHeaderKey P) (credentials_Sign P) (auth c) req x of
        Inl err \<Rightarrow> x
      | Inr signedReq \<Rightarrow> snd (client_Do P (httpClient c) signedReq x))"

definition exchange_failure ::
  "('q, 't, 'x) platform \<Rightarrow> transport \<Rightarrow> http_request \<Rightarrow> 'x \<Rightarrow> go_error option" where
  "exchange_failure P c req x =
     (case authenticator_apply (CanonicalMIMEHeaderKey P) (credentials_Sign P) (auth c) req x of
        Inl err \<Rightarrow> None
      | Inr signedReq \<Rightarrow>
          (case fst (client_Do P (httpClient c) signedReq x) of
             Inl cause \<Rightarrow> Some cause
           | Inr resp \<Rightarrow> None))"

section \<open>Numbers in responses (encoding/json, strconv and package model)\<close>

text \<open>
  What \<^verbatim>\<open>Decode\<close> stores for a JSON number depends on the Go type of the place the
  number lands in. The part of \<^verbatim>\<open>encoding/json\<close> that assigns a parsed document to a
  target is therefore written out here, after the documentation of \<^verbatim>\<open>encoding/json\<close> and
  \<^verbatim>\<open>strconv\<close>, for a decoder on which \<^verbatim>\<open>UseNumber\<close> was called and for the Go types
  the SDK's responses are made of. Two things stay parameters: \<open>scan\<close>, which reads the
  bytes of the input into a document or reports a syntax error, and \<open>foldName\<close>, the case
  folding with which \<^verbatim>\<open>encoding/json\<close> compares an object key with a field name when no
  field has exactly that key.

  A document keeps the literal text of every number and the order of the members of an
  object.
\<close>

datatype json =
    JNull
  | JBool bool
  | JNumber string
  | JString string
  | JArray "json list"
  | JObject "(string \<times> json) list"

text \<open>
  The Go types: \<^verbatim>\<open>interface{}\<close>, \<^verbatim>\<open>bool\<close>, \<^verbatim>\<open>string\<close>, \<^verbatim>\<open>int\<close> (64 bits),
  \<^verbatim>\<open>float32\<close>, \<^verbatim>\<open>float64\<close>, slices, maps with string keys, pointers and structs; a
  struct type lists the JSON key and the type of each field, the fields of an embedded
  struct among them. The Go values: a floating-point value is the rational number it is
  equal to (so negative zero is zero); \<open>VNumber\<close> is a \<^verbatim>\<open>json.Number\<close>, a string holding
  the literal; \<open>VNil\<close> is the nil interface, slice, map or pointer; a slice value stands
  for a slice whose capacity is its length; a map lists its entries in the order in which
  the keys were first set; a struct lists its fields by JSON key.
\<close>

datatype go_type =
    TInterface
  | TBool
  | TString
  | TInt
  | TFloat32
  | TFloat64
  | TSlice go_type
  | TMap go_type
  | TPtr go_type
  | TStruct "(string \<times> go_type) list"

datatype go_value =
    VNil
  | VBool bool
  | VString string
  | VInt int
  | VFloat32 rat
  | VFloat64 rat
  | VNumber string
  | VSlice "go_value list"
  | VMap "(string \<times> go_value) list"
  | VPtr go_value
  | VStruct "(string \<times> go_value) list"

fun zero_value :: "go_type \<Rightarrow> go_value" where
  "zero_value TInterface = VNil"
| "zero_value TBool = VBool False"
| "zero_value TString = VString []"
| "zero_value TInt = VInt 0"
| "zero_value TFloat32 = VFloat32 0"
| "zero_value TFloat64 = VFloat64 0"
| "zero_value (TSlice t) = VNil"
| "zero_value (TMap t) = VNil"
| "zero_value (TPtr t) = VNil"
| "zero_value (TStruct fieldTypes) = VStruct (map (\<lambda>(name, t). (name, zero_value t)) fieldTypes)"

text \<open>
  \<^verbatim>\<open>strconv.ParseInt(s, 10, 64)\<close>: an optional sign and at least one decimal digit; a
  value outside \<open>[-2^63, 2^63)\<close> is a range error. The errors are \<^verbatim>\<open>*strconv.NumError\<close>
  values, kept by their text.
\<close>

definition digit_value :: "char \<Rightarrow> nat option" where
  "digit_value ch =
     map_of [(CHR ''0'', 0), (CHR ''1'', 1), (CHR ''2'', 2), (CHR ''3'', 3), (CHR ''4'', 4),
             (CHR ''5'', 5), (CHR ''6'', 6), (CHR ''7'', 7), (CHR ''8'', 8), (CHR ''9'', 9)] ch"

fun digits_from :: "nat \<Rightarrow> string \<Rightarrow> nat option" where
  "digits_from n [] = Some n"
| "digits_from n (ch # s) =
     (case digit_value ch of None \<Rightarrow> None | Some d \<Rightarrow> digits_from (10 * n + d) s)"

definition digits_value :: "string \<Rightarrow> nat option" where
  "digits_value s = (if s = [] then None else digits_from 0 s)"

definition quoted :: "string \<Rightarrow> string" where
  "quoted s = CHR 0x22 # s @ [CHR 0x22]"

definition ParseInt :: "string \<Rightarrow> go_error + int" where
  "ParseInt s =
     (let negative = (s \<noteq> [] \<and> hd s = CHR ''-'');
          digits = (if s \<noteq> [] \<and> (hd s = CHR ''-'' \<or> hd s = CHR ''+'') then tl s else s)
      in case digits_value digits of
           None \<Rightarrow>
             Inl (Foreign (''strconv.ParseInt: parsing '' @ quoted s @ '': invalid syntax''))
         | Some n \<Rightarrow>
             let i = (if negative then - int n else int n)
             in if i < - (2 ^ 63) \<or> 2 ^ 63 - 1 < i then
                  Inl (Foreign (''strconv.ParseInt: parsing '' @ quoted s
                                  @ '': value out of range''))
                else Inr i)"

text \<open>
  \<^verbatim>\<open>strconv.ParseFloat(s, bitSize)\<close> on decimal literals (it also reads hexadecimal
  literals and the words for infinity and not-a-number, none of which is a JSON number).
  \<open>decimal_of\<close> reads sign, digits with an optional point, and an optional exponent: the
  literal denotes plus or minus \<open>n * 10^e\<close>. \<open>nearest_float p emin emax a b\<close> is the
  floating-point number with \<open>p\<close> bits of precision nearest to \<open>a / b\<close>, a tie going to
  the even significand (IEEE 754 round to nearest even): \<open>k\<close> is the binary exponent of
  \<open>a / b\<close>, \<open>e\<close> the exponent of the last place, at least \<open>emin\<close> where the subnormal
  numbers lie, and \<open>m\<close> the rounded significand; a result of \<open>2^emax\<close> or more is
  beyond the largest finite number, the range error \<open>None\<close>.
\<close>

definition decimal_of :: "string \<Rightarrow> (bool \<times> nat \<times> int) option" where
  "decimal_of s =
     (let negative = (s \<noteq> [] \<and> hd s = CHR ''-'');
          unsigned = (if s \<noteq> [] \<and> (hd s = CHR ''-'' \<or> hd s = CHR ''+'') then tl s else s);
          mantissa = takeWhile (\<lambda>ch. ch \<noteq> CHR ''e'' \<and> ch \<noteq> CHR ''E'') unsigned;
          exponent = dropWhile (\<lambda>ch. ch \<noteq> CHR ''e'' \<and> ch \<noteq> CHR ''E'') unsigned;
          whole = takeWhile (\<lambda>ch. ch \<noteq> CHR ''.'') mantissa;
          fraction = tl (dropWhile (\<lambda>ch. ch \<noteq> CHR ''.'') mantissa);
          scale =
            (if exponent = [] then Some 0
             else if tl exponent \<noteq> [] \<and> hd (tl exponent) = CHR ''-'' then
               map_option (\<lambda>n. - int n) (digits_value (tl (tl exponent)))
             else if tl exponent \<noteq> [] \<and> hd (tl exponent) = CHR ''+'' then
               map_option int (digits_value (tl (tl exponent)))
             else map_option int (digits_value (tl exponent)))
      in case (digits_value (whole @ fraction), scale) of
           (Some n, Some e) \<Rightarrow> Some (negative, n, e - int (length fraction))
         | _ \<Rightarrow> None)"

fun bit_length :: "nat \<Rightarrow> nat" where
  "bit_length n = (if n = 0 then 0 else Suc (bit_length (n div 2)))"

declare bit_length.simps [simp del]

definition round_half_even :: "nat \<Rightarrow> nat \<Rightarrow> nat" where
  "round_half_even a b =
     (let q = a div b; r = a mod b
      in if 2 * r < b then q
         else if b < 2 * r then q + 1
         else if even q then q else q + 1)"

definition nearest_float :: "nat \<Rightarrow> int \<Rightarrow> int \<Rightarrow> nat \<Rightarrow> nat \<Rightarrow> rat option" where
  "nearest_float p emin emax a b =
     (if a = 0 then Some 0
      else
        let k0 = int (bit_length a) - int (bit_length b);
            k = (if (if 0 \<le> k0 then b * 2 ^ nat k0 \<le> a else b \<le> a * 2 ^ nat (- k0)) then k0
                 else k0 - 1);
            e = max emin (k - (int p - 1));
            m = (if 0 \<le> e then round_half_even a (b * 2 ^ nat e)
                 else round_half_even (a * 2 ^ nat (- e)) b)
        in if emax \<le> e \<or> 2 ^ nat (emax - e) \<le> m then None
           else if 0 \<le> e then Some (of_nat (m * 2 ^ nat e))
           else Some (of_nat m / of_nat (2 ^ nat (- e))))"

definition ParseFloat :: "nat \<Rightarrow> string \<Rightarrow> go_error + rat" where
  "ParseFloat bitSize s =
     (case decimal_of s of
        None \<Rightarrow>
          Inl (Foreign (''strconv.ParseFloat: parsing '' @ quoted s @ '': invalid syntax''))
      | Some (negative, n, e) \<Rightarrow>
          (case (if bitSize = 32 then nearest_float 24 (- 149) 128
                 else nearest_float 53 (- 1074) 1024)
                  (if 0 \<le> e then n * 10 ^ nat e else n)
                  (if 0 \<le> e then 1 else 10 ^ nat (- e)) of
             None \<Rightarrow>
               Inl (Foreign (''strconv.ParseFloat: parsing '' @ quoted s
                               @ '': value out of range''))
           | Some f \<Rightarrow> Inr (if negative then - f else f)))"

text \<open>
  The methods \<^verbatim>\<open>Int64\<close> and \<^verbatim>\<open>Float64\<close> of \<^verbatim>\<open>json.Number\<close>, on the literal the number
  holds.
\<close>

definition Number_Int64 :: "string \<Rightarrow> go_error + int" where
  "Number_Int64 n = ParseInt n"

definition Number_Float64 :: "string \<Rightarrow> go_error + rat" where
  "Number_Float64 n = ParseFloat 64 n"

text \<open>
  What \<^verbatim>\<open>Decode\<close> stores in an \<^verbatim>\<open>interface{}\<close>: a bool, a string, a \<^verbatim>\<open>json.Number\<close>
  (because of \<^verbatim>\<open>UseNumber\<close>; a \<^verbatim>\<open>float64\<close> otherwise), a \<^verbatim>\<open>[]interface{}\<close>, a
  \<^verbatim>\<open>map[string]interface{}\<close>, or nil for \<^verbatim>\<open>null\<close>. In a map a later member with the same
  key replaces the earlier one.
\<close>

fun valueInterface :: "json \<Rightarrow> go_value"
  and arrayInterface :: "json list \<Rightarrow> go_value list"
  and objectInterface ::
    "(string \<times> json) list \<Rightarrow> (string \<times> go_value) list \<Rightarrow> (string \<times> go_value) list"
where
  "valueInterface JNull = VNil"
| "valueInterface (JBool b) = VBool b"
| "valueInterface (JNumber lit) = VNumber lit"
| "valueInterface (JString s) = VString s"
| "valueInterface (JArray elements) = VSlice (arrayInterface elements)"
| "valueInterface (JObject members) = VMap (objectInterface members [])"
| "arrayInterface [] = []"
| "arrayInterface (j # elements) = valueInterface j # arrayInterface elements"
| "objectInterface [] m = m"
| "objectInterface ((key, j) # members) m =
     objectInterface members (AList.update key (valueInterface j) m)"

text \<open>
  A JSON value that does not fit the Go type of its place is skipped and reported as an
  \<^verbatim>\<open>*json.UnmarshalTypeError\<close>, kept by the start of its text, which describes the JSON
  value (the rest names the Go type and the field). \<^verbatim>\<open>Decode\<close> goes on and returns the
  earliest such error.
\<close>

definition UnmarshalTypeError :: "json \<Rightarrow> go_error" where
  "UnmarshalTypeError j =
     Foreign (''json: cannot unmarshal '' @
        (case j of
           JNull \<Rightarrow> ''null''
         | JBool b \<Rightarrow> ''bool''
         | JNumber lit \<Rightarrow> ''number '' @ lit
         | JString s \<Rightarrow> ''string''
         | JArray elements \<Rightarrow> ''array''
         | JObject members \<Rightarrow> ''object''))"

definition earliest :: "go_error \<Rightarrow> go_error \<Rightarrow> go_error" where
  "earliest e1 e2 = (if e1 \<noteq> ErrNil then e1 else e2)"

text \<open>
  The field an object key is assigned to: the field with exactly that key, otherwise the
  first field whose key is the same after folding, otherwise none (the member is ignored).
\<close>

definition find_field ::
  "(string \<Rightarrow> string) \<Rightarrow> string \<Rightarrow> (string \<times> go_type) list \<Rightarrow> (string \<times> go_type) option" where
  "find_field foldName key fieldTypes =
     (case map_of fieldTypes key of
        Some t \<Rightarrow> Some (key, t)
      | None \<Rightarrow> find (\<lambda>(name, t). foldName name = foldName key) fieldTypes)"

text \<open>
  \<open>assign foldName t j cur\<close>: the document \<open>j\<close> is stored in a place of type \<open>t\<close> that
  holds \<open>cur\<close>; the result is what the place holds afterwards and the earliest type error.
  \<^verbatim>\<open>null\<close> makes an interface, slice, map or pointer nil and leaves every other place as
  it is. A nil pointer is made to point to a new zero value first. An interface receives
  the value above (it never holds a pointer here). A number is converted with
  \<^verbatim>\<open>strconv.ParseInt\<close> for \<^verbatim>\<open>int\<close> and with \<^verbatim>\<open>strconv.ParseFloat\<close>, at the size of the
  type, for \<^verbatim>\<open>float32\<close> and \<^verbatim>\<open>float64\<close>; a number that cannot be converted is a type
  error. An array is stored element by element: into the elements the slice has, then
  into new zero values. An object is stored member by member: in a map, each into a new
  zero value that is then put under the key; in a struct, each into the field that
  \<open>find_field\<close> gives.
\<close>

function (sequential)
  assign :: "(string \<Rightarrow> string) \<Rightarrow> go_type \<Rightarrow> json \<Rightarrow> go_value \<Rightarrow> go_value \<times> go_error"
  and assign_elements ::
    "(string \<Rightarrow> string) \<Rightarrow> go_type \<Rightarrow> json list \<Rightarrow> go_value list \<Rightarrow> go_value list \<times> go_error"
  and assign_entries ::
    "(string \<Rightarrow> string) \<Rightarrow> go_type \<Rightarrow> (string \<times> json) list \<Rightarrow> (string \<times> go_value) list \<Rightarrow>
     (string \<times> go_value) list \<times> go_error"
  and assign_fields ::
    "(string \<Rightarrow> string) \<Rightarrow> (string \<times> go_type) list \<Rightarrow> (string \<times> json) list \<Rightarrow>
     (string \<times> go_value) list \<Rightarrow> (string \<times> go_value) list \<times> go_error"
where
  "assign foldName t j cur =
     (if j = JNull then
        (case t of
           TInterface \<Rightarrow> (VNil, ErrNil)
         | TSlice elem \<Rightarrow> (VNil, ErrNil)
         | TMap elem \<Rightarrow> (VNil, ErrNil)
         | TPtr elem \<Rightarrow> (VNil, ErrNil)
         | _ \<Rightarrow> (cur, ErrNil))
      else
        (case t of
           TPtr elem \<Rightarrow>
             (case assign foldName elem j (case cur of VPtr v \<Rightarrow> v | _ \<Rightarrow> zero_value elem) of
                (v, err) \<Rightarrow> (VPtr v, err))
         | TInterface \<Rightarrow> (valueInterface j, ErrNil)
         | TBool \<Rightarrow>
             (case j of JBool b \<Rightarrow> (VBool b, ErrNil) | _ \<Rightarrow> (cur, UnmarshalTypeError j))
         | TString \<Rightarrow>
             (case j of JString s \<Rightarrow> (VString s, ErrNil) | _ \<Rightarrow> (cur, UnmarshalTypeError j))
         | TInt \<Rightarrow>
             (case j of
                JNumber lit \<Rightarrow>
                  (case ParseInt lit of
                     Inl err \<Rightarrow> (cur, UnmarshalTypeError j)
                   | Inr n \<Rightarrow> (VInt n, ErrNil))
              | _ \<Rightarrow> (cur, UnmarshalTypeError j))
         | TFloat32 \<Rightarrow>
             (case j of
                JNumber lit \<Rightarrow>
                  (case ParseFloat 32 lit of
                     Inl err \<Rightarrow> (cur, UnmarshalTypeError j)
                   | Inr f \<Rightarrow> (VFloat32 f, ErrNil))
              | _ \<Rightarrow> (cur, UnmarshalTypeError j))
         | TFloat64 \<Rightarrow>
             (case j of
                JNumber lit \<Rightarrow>
                  (case ParseFloat 64 lit of
                     Inl err \<Rightarrow> (cur, UnmarshalTypeError j)
                   | Inr f \<Rightarrow> (VFloat64 f, ErrNil))
              | _ \<Rightarrow> (cur, UnmarshalTypeError j))
         | TSlice elem \<Rightarrow>
             (case j of
                JArray elements \<Rightarrow>
                  (case assign_elements foldName elem elements
                          (case cur of VSlice vs \<Rightarrow> vs | _ \<Rightarrow> []) of
                     (vs, err) \<Rightarrow> (VSlice vs, err))
              | _ \<Rightarrow> (cur, UnmarshalTypeError j))
         | TMap elem \<Rightarrow>
             (case j of
                JObject members \<Rightarrow>
                  (case assign_entries foldName elem members
                          (case cur of VMap m \<Rightarrow> m | _ \<Rightarrow> []) of
                     (m, err) \<Rightarrow> (VMap m, err))
              | _ \<Rightarrow> (cur, UnmarshalTypeError j))
         | TStruct fieldTypes \<Rightarrow>
             (case j of
                JObject members \<Rightarrow>
                  (case assign_fields foldName fieldTypes members
                          (case cur of VStruct vs \<Rightarrow> vs | _ \<Rightarrow> []) of
                     (vs, err) \<Rightarrow> (VStruct vs, err))
              | _ \<Rightarrow> (cur, UnmarshalTypeError j))))"
| "assign_elements foldName elem [] cur = ([], ErrNil)"
| "assign_elements foldName elem (j # elements) cur =
     (case assign foldName elem j (case cur of [] \<Rightarrow> zero_value elem | v # vs \<Rightarrow> v) of
        (v, err) \<Rightarrow>
          (case assign_elements foldName elem elements (tl cur) of
             (vs, err') \<Rightarrow> (v # vs, earliest err err')))"
| "assign_entries foldName elem [] m = (m, ErrNil)"
| "assign_entries foldName elem ((key, j) # members) m =
     (case assign foldName elem j (zero_value elem) of
        (v, err) \<Rightarrow>
          (case assign_entries foldName elem members (AList.update key v m) of
             (m', err') \<Rightarrow> (m', earliest err err')))"
| "assign_fields foldName fieldTypes [] vs = (vs, ErrNil)"
| "assign_fields foldName fieldTypes ((key, j) # members) vs =
     (case find_field foldName key fieldTypes of
        None \<Rightarrow> assign_fields foldName fieldTypes members vs
      | Some (name, t) \<Rightarrow>
          (case assign foldName t j
                  (case map_of vs name of None \<Rightarrow> zero_value t | Some v \<Rightarrow> v) of
             (v, err) \<Rightarrow>
               (case assign_fields foldName fieldTypes members (AList.update name v vs) of
                  (vs', err') \<Rightarrow> (vs', earliest err err'))))"
  by pat_completeness auto
termination
  by (relation "inv_image (less_than <*lex*> less_than)
        (\<lambda>x. case x of
           Inl (Inl (f, t, j, cur)) \<Rightarrow> (size j, size t)
         | Inl (Inr (f, t, js, cur)) \<Rightarrow> (size_list size js, 0)
         | Inr (Inl (f, t, ms, m)) \<Rightarrow> (size_list (size_prod (\<lambda>k. 0) size) ms, 0)
         | Inr (Inr (f, fts, ms, vs)) \<Rightarrow> (size_list (size_prod (\<lambda>k. 0) size) ms, 0))")
     auto

declare assign.simps [simp del]

text \<open>
  \<^verbatim>\<open>Decode\<close> of a decoder with \<^verbatim>\<open>UseNumber\<close> into a pointer to a value \<open>obj\<close> of type
  \<open>t\<close>: a syntax error leaves the target as it is.
\<close>

definition Decoder_Decode ::
  "(string \<Rightarrow> go_error + json) \<Rightarrow> (string \<Rightarrow> string) \<Rightarrow> go_type \<Rightarrow> string \<Rightarrow> go_value \<Rightarrow>
   go_error \<times> go_value" where
  "Decoder_Decode scan foldName t input obj =
     (case scan input of
        Inl err \<Rightarrow> (err, obj)
      | Inr doc \<Rightarrow> (case assign foldName t doc obj of (obj', err) \<Rightarrow> (err, obj')))"

text \<open>
  The types of a search response in package \<^verbatim>\<open>model\<close>: \<^verbatim>\<open>MapStr\<close>,
  \<^verbatim>\<open>SearchItemResult\<close>, \<^verbatim>\<open>SearchResult\<close> and \<^verbatim>\<open>SearchResponse\<close>, which embeds
  \<^verbatim>\<open>CommonResponse\<close>.
\<close>

definition MapStr :: go_type where
  "MapStr = TMap TInterface"

definition SearchItemResult :: go_type where
  "SearchItemResult =
     TStruct [(''id'', TInterface), (''fields'', MapStr), (''ann_score'', TFloat32),
              (''score'', TFloat32)]"

definition SearchResult :: go_type where
  "SearchResult =
     TStruct [(''data'', TSlice SearchItemResult), (''filter_matched_count'', TInt),
              (''total_return_count'', TInt), (''real_text_query'', TString),
              (''token_usage'', MapStr)]"

definition SearchResponse :: go_type where
  "SearchResponse =
     TStruct [(''api'', TString), (''message'', TString), (''code'', TString),
              (''request_id'', TString), (''result'', TPtr SearchResult)]"

section \<open>Example values\<close>

text \<open>
  The values the examples below run the model on. \<open>example_url_Parse\<close> returns what
  \<^verbatim>\<open>url.Parse\<close> returns for the three endpoints used. \<open>example_decoder\<close> returns what
  \<^verbatim>\<open>encoding/json\<close> returns for the two bodies used, and a syntax error for every other
  input; \<open>example_scan\<close> returns the documents of the three response bodies used. In
  \<open>example_platform\<close> the world is a clock that every exchange advances;
  \<^verbatim>\<open>net/http\<close> refuses a method with a space in it, header keys are kept as they are, the
  signer stamps the request with the time, serialization is as told, and every exchange
  fails with the given error. \<open>example_transport\<close> is the transport of a client with a
  bearer key and the default configuration, \<open>example_transport_iam\<close> that of a client
  with an access key and a secret key; \<open>example_world\<close> is a state in which nothing
  has happened yet.
\<close>

definition example_url_Parse :: "string \<Rightarrow> go_error + url" where
  "example_url_Parse endpoint =
     (if endpoint = ''https://api.vector.bytedance.com'' then
        Inr \<lparr>Scheme = ''https'', Host = ''api.vector.bytedance.com'', Path = [], RawQuery = []\<rparr>
      else if endpoint = ''https://example.com'' then
        Inr \<lparr>Scheme = ''https'', Host = ''example.com'', Path = [], RawQuery = []\<rparr>
      else if endpoint = ''//localhost:8080'' then
        Inr \<lparr>Scheme = [], Host = ''localhost:8080'', Path = [], RawQuery = []\<rparr>
      else Inl (Foreign ''parse error''))"

definition example_decoder :: "string \<Rightarrow> errResp \<Rightarrow> go_error \<times> errResp" where
  \<open>example_decoder input obj =
     (if input = ''{"code":"ServiceUnavailable","message":"x","request_id":"r1"}'' then
        (ErrNil, \<lparr>errResp_Code = ''ServiceUnavailable'', errResp_Message = ''x'',
                  errResp_RequestID = ''r1''\<rparr>)
      else if input = ''{"request_id":"r1"}'' then (ErrNil, obj\<lparr>errResp_RequestID := ''r1''\<rparr>)
      else (Foreign ''invalid character'', obj))\<close>

definition example_scan :: "string \<Rightarrow> go_error + json" where
  \<open>example_scan input =
     (if input = ''{"result":{"data":[{"fields":{"score":47},"score":47}]}}'' then
        Inr (JObject [(''result'', JObject [(''data'', JArray [JObject
               [(''fields'', JObject [(''score'', JNumber ''47'')]),
                (''score'', JNumber ''47'')]])])])
      else if input = ''{"result":{"data":[{"fields":{"score":47.0},"score":47.0}]}}'' then
        Inr (JObject [(''result'', JObject [(''data'', JArray [JObject
               [(''fields'', JObject [(''score'', JNumber ''47.0'')]),
                (''score'', JNumber ''47.0'')]])])])
      else if input = ''{"result":{"data":[{"fields":{"score":16777217},"score":16777217}]}}''
      then
        Inr (JObject [(''result'', JObject [(''data'', JArray [JObject
               [(''fields'', JObject [(''score'', JNumber ''16777217'')]),
                (''score'', JNumber ''16777217'')]])])])
      else Inl (Foreign ''invalid character''))\<close>

definition example_platform ::
  "go_error \<Rightarrow> (unit \<Rightarrow> go_error + string) \<Rightarrow> (unit, unit, nat) platform" where
  "example_platform failure marshal =
     \<lparr>url_ResolveReference = (\<lambda>u p. u\<lparr>Path := p\<rparr>),
      url_SetQuery = (\<lambda>u q. u),
      url_String = (\<lambda>u. Scheme u @ ''://'' @ Host u @ Path u),
      http_NewRequest_error =
        (\<lambda>m u. if CHR '' '' \<in> set m then Foreign (''net/http: invalid method '' @ CHR 0x22 # m @ [CHR 0x22])
               else ErrNil),
      CanonicalMIMEHeaderKey = (\<lambda>k. k),
      credentials_Sign =
        (\<lambda>ak sk service region req x. Header_Set (\<lambda>k. k) ''X-Date'' (format_nat x) req),
      client_Do = (\<lambda>cl req x. (Inl failure, x + 1)),
      json_Marshal = marshal,
      json_Decode_errResp = example_decoder,
      json_Decode = (\<lambda>input obj. (ErrNil, obj))\<rparr>"

definition example_transport :: transport where
  "example_transport =
     \<lparr>config = DefaultConfig, httpClient = HttpClient (30 * Second),
      baseURL = \<lparr>Scheme = ''https'', Host = ''api.vector.bytedance.com'', Path = [],
                 RawQuery = []\<rparr>,
      auth = apiKeyAuth ''key'', userAgent = ''vikingdb-go-sdk/0.1.0''\<rparr>"

definition example_transport_iam :: transport where
  "example_transport_iam = example_transport\<lparr>auth := iamAuth ''AK'' ''SK'' ''cn-beijing''\<rparr>"

definition example_world :: "(unit, nat) call_state world" where
  "example_world =
     \<lparr>app = \<lparr>remote = 0, target = Some (), events = []\<rparr>,
      rand_src = (\<lambda>i. 0), rand_pos = 0, trace = []\<rparr>"

section \<open>The retryability predicate\<close>

text \<open>
  C1 (as amended). On a nil \<^verbatim>\<open>*Error\<close> held in an \<^verbatim>\<open>error\<close> the predicate panics. On
  every other error value it answers, and the answer is true exactly when the value is an
  SDK error whose HTTP status is one of 429, 500, 502, 503, 504 or whose code is one of
  ServiceUnavailable, Timeout, RequestLimitExceeded; so it is false for nil, for errors
  of any other type and for SDK errors with any other status and code.
\<close>

theorem IsRetryableError_result:
  "IsRetryableError e =
     (if e = NilSdkError then None
      else Some (\<exists>code message statusCode requestID cause.
                   e = SdkError code message statusCode requestID cause \<and>
                   (statusCode \<in> {429, 500, 502, 503, 504} \<or>
                    code \<in> {''ServiceUnavailable'', ''Timeout'', ''RequestLimitExceeded''})))"
  by (cases e) auto

theorem IsRetryableError_result_witness:
  "IsRetryableError (SdkError ''Timeout'' ''slow'' 400 ''r1'' ErrNil) = Some True \<and>
   IsRetryableError (SdkError ''Unknown'' ''busy'' 429 [] ErrNil) = Some True \<and>
   IsRetryableError (SdkError ''NotFound'' ''gone'' 404 [] ErrNil) = Some False \<and>
   IsRetryableError (Foreign ''connection refused'') = Some False \<and>
   IsRetryableError ErrNil = Some False"
  using IsRetryableError_result [of "SdkError ''Timeout'' ''slow'' 400 ''r1'' ErrNil"]
    IsRetryableError_result [of "SdkError ''NotFound'' ''gone'' 404 [] ErrNil"]
    IsRetryableError_result [of "Foreign ''connection refused''"]
  by simp

theorem IsRetryableError_nil_pointer_counterexample:
  "NilSdkError \<noteq> ErrNil \<and>
   IsRetryableError NilSdkError = None \<and>
   IsRetryableError NilSdkError \<noteq> Some False \<and>
   Retry 3 (returning (\<lambda>s::nat. (NilSdkError, s + 1))) (Some IsRetryableError)
     \<lparr>app = 0, rand_src = (\<lambda>i. 7), rand_pos = 0, trace = []\<rparr> = None"
  by (simp add: Retry_def retry_loop.simps invoke_def returning_def)

section \<open>Retry: invocations and backoff\<close>

lemma defaultMaxBackoff_pos: "0 < defaultMaxBackoff"
  by (simp add: defaultMaxBackoff_def Second_def Millisecond_def)

lemma defaultInitialBackoff_pos: "0 < defaultInitialBackoff"
  by (simp add: defaultInitialBackoff_def Millisecond_def)

lemma defaultInitialBackoff_le: "defaultInitialBackoff \<le> defaultMaxBackoff"
  by (simp add: defaultInitialBackoff_def defaultMaxBackoff_def Second_def Millisecond_def)

lemma backoff_Some:
  "0 < d \<Longrightarrow> backoff d w =
     Some (min (2 * d) defaultMaxBackoff,
           w\<lparr>rand_pos := rand_pos w + 1,
             trace := trace w @ [Slept (min (d + rand_src w (rand_pos w) mod d) defaultMaxBackoff)]\<rparr>)"
  by (simp add: backoff_def Int63n_def Sleep_def Let_def min_def backoffMultiplier_def)

lemma min_double_cap:
  fixes d M :: int
  assumes "0 < d" "0 < M"
  shows "min (min (2 * d) M * 2 ^ i) M = min (d * 2 ^ Suc i) M"
proof (cases "2 * d \<le> M")
  case True
  then show ?thesis by (simp add: min_def mult.assoc mult.commute mult.left_commute)
next
  case False
  have p: "(1::int) \<le> 2 ^ i" by simp
  have "M \<le> M * 2 ^ i" using assms(2) p by (simp add: mult_le_cancel_left1)
  moreover have "2 * d \<le> (2 * d) * 2 ^ i" using assms(1) p by (simp add: mult_le_cancel_left1)
  ultimately show ?thesis using False by (simp add: min_def mult.assoc)
qed

lemma error_of_Suc: "error_of fn s (Suc i) = error_of fn (snd (fn s)) i"
  by (simp add: error_of_def)

lemma retry_loop_pos:
  assumes "0 < d" "d \<le> defaultMaxBackoff" "0 < a" "a + int k \<le> m"
    and "\<forall>i<k. \<not> final sr (error_of fn (app w) i)"
    and "final sr (error_of fn (app w) k) \<or> a + int k = m"
  shows "retry_loop m (returning fn) (answering sr) a d lastErr w =
     Some (error_of fn (app w) k,
           w\<lparr>app := state_after fn (app w) (Suc k),
             rand_pos := rand_pos w + Suc k,
             trace := trace w @ concat (map (\<lambda>i. [Slept (sleep_at d (rand_src w) (rand_pos w) i),
                Invoked (error_of fn (app w) i)]) [0..<Suc k])\<rparr>)"
  using assms
proof (induction k arbitrary: a d lastErr w)
  case 0
  obtain e s' where f: "fn (app w) = (e, s')" by (cases "fn (app w)")
  have e: "error_of fn (app w) 0 = e" by (simp add: error_of_def f)
  show ?case
    using 0 f e
    by (subst retry_loop.simps)
       (auto simp: backoff_Some invoke_def returning_def answering_def final_def sleep_at_def min_def split: option.splits)
next
  case (Suc k)
  obtain e s' where f: "fn (app w) = (e, s')" by (cases "fn (app w)")
  have e: "error_of fn (app w) 0 = e" by (simp add: error_of_def f)
  have nf: "\<not> final sr e" using Suc.prems(5) e by auto
  let ?d = "min (2 * d) defaultMaxBackoff"
  let ?w = "w\<lparr>rand_pos := Suc (rand_pos w), app := s',
             trace := trace w @ [Slept (min (d + rand_src w (rand_pos w) mod d) defaultMaxBackoff), Invoked e]\<rparr>"
  have step: "retry_loop m (returning fn) (answering sr) a d lastErr w = retry_loop m (returning fn) (answering sr) (a + 1) ?d e ?w"
    using Suc.prems(1,3,4) f nf
    by (subst retry_loop.simps) (auto simp: backoff_Some invoke_def returning_def answering_def final_def split: option.splits)
  have dpos: "0 < ?d" "?d \<le> defaultMaxBackoff"
    using Suc.prems(1) defaultMaxBackoff_pos by auto
  have a': "0 < a + 1" "a + 1 + int k \<le> m" using Suc.prems(3,4) by auto
  have nfs: "\<forall>i<k. \<not> final sr (error_of fn (app ?w) i)"
  proof (intro allI impI)
    fix i assume "i < k"
    then have "\<not> final sr (error_of fn (app w) (Suc i))" using Suc.prems(5) by simp
    then show "\<not> final sr (error_of fn (app ?w) i)" by (simp add: error_of_Suc f)
  qed
  have fin: "final sr (error_of fn (app ?w) k) \<or> a + 1 + int k = m"
    using Suc.prems(6) f by (auto simp: error_of_Suc)
  have sl: "sleep_at ?d (rand_src w) (Suc (rand_pos w)) = (\<lambda>i. sleep_at d (rand_src w) (rand_pos w) (Suc i))"
    unfolding sleep_at_def using min_double_cap[OF Suc.prems(1) defaultMaxBackoff_pos]
    by (intro ext) simp
  have s0: "min (d + rand_src w (rand_pos w) mod d) defaultMaxBackoff = sleep_at d (rand_src w) (rand_pos w) 0"
    using Suc.prems(2) by (simp add: sleep_at_def min_def)
  show ?case
    unfolding step
    by (subst Suc.IH[OF dpos a' nfs fin])
       (simp add: f e error_of_Suc sl s0 map_upt_Suc[of _ "Suc k"] del: upt_Suc)
qed

lemma Retry_run:
  assumes "int k \<le> (if m < 0 then 0 else m)"
    and "\<forall>i<k. \<not> final sr (error_of fn (app w) i)"
    and "final sr (error_of fn (app w) k) \<or> int k = (if m < 0 then 0 else m)"
  shows "Retry m (returning fn) (answering sr) w =
     Some (error_of fn (app w) k,
           w\<lparr>app := state_after fn (app w) (Suc k),
             rand_pos := rand_pos w + k,
             trace := trace w @ Invoked (error_of fn (app w) 0) #
               concat (map (\<lambda>i. [Slept (nth_sleep w i), Invoked (error_of fn (app w) i)]) [1..<Suc k])\<rparr>)"
proof (cases k)
  case 0
  obtain e s' where f: "fn (app w) = (e, s')" by (cases "fn (app w)")
  have e: "error_of fn (app w) 0 = e" by (simp add: error_of_def f)
  show ?thesis
    using 0 assms f e unfolding Retry_def Let_def
    by (subst retry_loop.simps) (auto simp: invoke_def returning_def answering_def final_def split: option.splits)
next
  case (Suc j)
  let ?m = "if m < 0 then 0 else m"
  obtain e s' where f: "fn (app w) = (e, s')" by (cases "fn (app w)")
  have e: "error_of fn (app w) 0 = e" by (simp add: error_of_def f)
  have nf: "\<not> final sr e" using assms(2) e Suc by auto
  let ?w = "w\<lparr>app := s', trace := trace w @ [Invoked e]\<rparr>"
  have step: "Retry m (returning fn) (answering sr) w = retry_loop ?m (returning fn) (answering sr) 1 defaultInitialBackoff e ?w"
    using assms(1) Suc f nf unfolding Retry_def Let_def
    by (subst retry_loop.simps) (auto simp: invoke_def returning_def answering_def final_def split: option.splits)
  have a': "1 + int j \<le> ?m" using assms(1) Suc by auto
  have nfs: "\<forall>i<j. \<not> final sr (error_of fn (app ?w) i)"
  proof (intro allI impI)
    fix i assume "i < j"
    then have "\<not> final sr (error_of fn (app w) (Suc i))" using assms(2) Suc by simp
    then show "\<not> final sr (error_of fn (app ?w) i)" by (simp add: error_of_Suc f)
  qed
  have fin: "final sr (error_of fn (app ?w) j) \<or> 1 + int j = ?m"
    using assms(3) Suc f by (auto simp: error_of_Suc)
  have ns: "nth_sleep w (Suc i) = sleep_at defaultInitialBackoff (rand_src w) (rand_pos w) i" for i
    by (simp add: nth_sleep_def nth_jitter_def nth_delay_def sleep_at_def)
  have tr: "map (\<lambda>i. [Slept (nth_sleep w i), Invoked (error_of fn (app w) i)]) [1..<Suc (Suc j)]
      = map (\<lambda>i. [Slept (sleep_at defaultInitialBackoff (rand_src w) (rand_pos w) i),
               Invoked (error_of fn s' i)]) [0..<Suc j]"
  proof -
    have "[1..<Suc (Suc j)] = map Suc [0..<Suc j]"
      using map_Suc_upt[of 0 "Suc j"] by simp
    then show ?thesis
      by (simp add: ns error_of_Suc f comp_def del: upt_Suc)
  qed
  show ?thesis
    unfolding step Suc tr
    by (subst retry_loop_pos[OF defaultInitialBackoff_pos defaultInitialBackoff_le _ a' nfs fin])
       (simp_all add: f e error_of_Suc del: upt_Suc)
qed


lemma run_exists:
  fixes M :: int
  assumes "0 \<le> M"
  shows "\<exists>k. int k \<le> M \<and> (\<forall>i<k. \<not> P i) \<and> (P k \<or> int k = M)"
proof (cases "\<exists>i. int i \<le> M \<and> P i")
  case True
  then obtain i where i: "int i \<le> M \<and> P i" by blast
  let ?k = "LEAST i. int i \<le> M \<and> P i"
  have k: "int ?k \<le> M \<and> P ?k" using i by (rule LeastI)
  have "\<forall>j<?k. \<not> P j"
  proof (intro allI impI)
    fix j assume j: "j < ?k"
    then have "\<not> (int j \<le> M \<and> P j)" by (rule not_less_Least)
    moreover have "int j \<le> M" using j k by linarith
    ultimately show "\<not> P j" by blast
  qed
  then show ?thesis using k by blast
next
  case False
  then have "\<forall>i<nat M. \<not> P i" by auto
  moreover have "int (nat M) = M" using assms by simp
  ultimately show ?thesis by (intro exI[of _ "nat M"]) simp
qed

lemma invocations_rounds:
  "invocations (tr @ Invoked e # concat (map (\<lambda>i. [Slept (f i), Invoked (g i)]) xs))
     = invocations tr + 1 + length xs"
  by (induction xs) (simp_all add: invocations_def)

lemma nth_delay_pos: "0 < nth_delay k"
  using defaultInitialBackoff_pos defaultMaxBackoff_pos by (simp add: nth_delay_def)

lemma nth_delay_le: "nth_delay k \<le> defaultMaxBackoff"
  by (simp add: nth_delay_def)

lemma nth_jitter_range: "0 \<le> nth_jitter w k \<and> nth_jitter w k < nth_delay k"
  using nth_delay_pos[of k] by (simp add: nth_jitter_def)

lemma nth_sleep_lower: "nth_delay k \<le> nth_sleep w k"
  using nth_jitter_range[of w k] nth_delay_le[of k] by (simp add: nth_sleep_def)

lemma nth_sleep_upper:
  assumes "1 \<le> k"
  shows "nth_sleep w k \<le> min (defaultInitialBackoff * 2 ^ k) defaultMaxBackoff"
proof -
  obtain j where k: "k = Suc j" using assms by (cases k) auto
  have "nth_delay k \<le> defaultInitialBackoff * 2 ^ j" by (simp add: nth_delay_def k)
  then have "nth_delay k + nth_jitter w k \<le> defaultInitialBackoff * 2 ^ k"
    using nth_jitter_range[of w k] by (simp add: k)
  then show ?thesis by (simp add: nth_sleep_def min_def)
qed

lemma nth_delay_Suc:
  assumes "1 \<le> k"
  shows "nth_delay (Suc k) = min (2 * nth_delay k) defaultMaxBackoff"
proof -
  obtain j where k: "k = Suc j" using assms by (cases k) auto
  show ?thesis
    using min_double_cap[OF defaultInitialBackoff_pos defaultMaxBackoff_pos, of 0]
      defaultMaxBackoff_pos
    by (simp add: nth_delay_def k min_def)
qed

lemma nth_sleep_uncapped:
  assumes "1 \<le> k" "defaultInitialBackoff * 2 ^ k \<le> defaultMaxBackoff"
  shows "nth_delay k = defaultInitialBackoff * 2 ^ (k - 1) \<and>
         nth_sleep w k = nth_delay k + nth_jitter w k \<and>
         nth_sleep w k < defaultInitialBackoff * 2 ^ k"
proof -
  obtain j where k: "k = Suc j" using assms(1) by (cases k) auto
  have "defaultInitialBackoff * 2 ^ j \<le> defaultInitialBackoff * 2 ^ k"
    using defaultInitialBackoff_pos by (simp add: k)
  then have d: "nth_delay k = defaultInitialBackoff * 2 ^ j"
    using assms(2) by (simp add: nth_delay_def k)
  have "nth_delay k + nth_jitter w k < defaultInitialBackoff * 2 ^ k"
    using nth_jitter_range[of w k] d by (simp add: k)
  then show ?thesis using d assms(2) by (simp add: nth_sleep_def k)
qed

text \<open>
  C2. For an operation that returns and a \<^verbatim>\<open>shouldRetry\<close> that is nil or answers,
  \<^verbatim>\<open>Retry\<close> always returns and invokes the operation at least once. When the
  attempts before attempt \<open>k\<close> (counted from 0, within the budget) failed with errors
  that are retried and attempt \<open>k\<close> fails with an error \<^verbatim>\<open>shouldRetry\<close> rejects,
  \<^verbatim>\<open>Retry\<close> returns that error after exactly \<open>k + 1\<close> invocations: one invocation when
  the first attempt is rejected. When every attempt fails with an error that is retried,
  the operation is invoked exactly \<open>maxRetries + 1\<close> times, a negative \<^verbatim>\<open>maxRetries\<close>
  counting as 0, and the error of the last attempt is returned.
\<close>

theorem Retry_invocations:
  "(\<exists>err w'. Retry m (returning fn) (answering sr) w = Some (err, w') \<and>
       invocations (trace w) + 1 \<le> invocations (trace w')) \<and>
   (\<forall>k. int k \<le> (if m < 0 then 0 else m) \<and>
        (\<forall>i<k. \<not> final sr (error_of fn (app w) i)) \<and>
        error_of fn (app w) k \<noteq> ErrNil \<and> final sr (error_of fn (app w) k) \<longrightarrow>
        (\<exists>w'. Retry m (returning fn) (answering sr) w = Some (error_of fn (app w) k, w') \<and>
           invocations (trace w') = invocations (trace w) + (k + 1) \<and>
           app w' = state_after fn (app w) (k + 1))) \<and>
   ((\<forall>i. int i \<le> (if m < 0 then 0 else m) \<longrightarrow> \<not> final sr (error_of fn (app w) i)) \<longrightarrow>
        (\<exists>w'. Retry m (returning fn) (answering sr) w = Some (error_of fn (app w) (nat m), w') \<and>
           invocations (trace w') = invocations (trace w) + (nat m + 1) \<and>
           app w' = state_after fn (app w) (nat m + 1)))"
proof (intro conjI allI impI)
  let ?M = "if m < 0 then 0 else m"
  have "0 \<le> ?M" by simp
  from run_exists[OF this, of "\<lambda>i. final sr (error_of fn (app w) i)"]
  obtain k where k: "int k \<le> ?M" "\<forall>i<k. \<not> final sr (error_of fn (app w) i)"
    "final sr (error_of fn (app w) k) \<or> int k = ?M" by blast
  show "\<exists>err w'. Retry m (returning fn) (answering sr) w = Some (err, w') \<and>
       invocations (trace w) + 1 \<le> invocations (trace w')"
    by (simp add: Retry_run[OF k] invocations_rounds del: upt_Suc)
next
  fix k
  assume a: "int k \<le> (if m < 0 then 0 else m) \<and>
        (\<forall>i<k. \<not> final sr (error_of fn (app w) i)) \<and>
        error_of fn (app w) k \<noteq> ErrNil \<and> final sr (error_of fn (app w) k)"
  then have k: "int k \<le> (if m < 0 then 0 else m)" "\<forall>i<k. \<not> final sr (error_of fn (app w) i)"
    "final sr (error_of fn (app w) k) \<or> int k = (if m < 0 then 0 else m)" by simp_all
  show "\<exists>w'. Retry m (returning fn) (answering sr) w = Some (error_of fn (app w) k, w') \<and>
           invocations (trace w') = invocations (trace w) + (k + 1) \<and>
           app w' = state_after fn (app w) (k + 1)"
    by (simp add: Retry_run[OF k] invocations_rounds del: upt_Suc)
next
  assume a: "\<forall>i. int i \<le> (if m < 0 then 0 else m) \<longrightarrow> \<not> final sr (error_of fn (app w) i)"
  have k1: "int (nat m) \<le> (if m < 0 then 0 else m)" by simp
  have k2: "\<forall>i<nat m. \<not> final sr (error_of fn (app w) i)"
  proof (intro allI impI)
    fix i assume "i < nat m"
    then have "int i \<le> (if m < 0 then 0 else m)" by (cases "m < 0") auto
    then show "\<not> final sr (error_of fn (app w) i)" using a by blast
  qed
  have k3: "final sr (error_of fn (app w) (nat m)) \<or> int (nat m) = (if m < 0 then 0 else m)"
    by simp
  note k = k1 k2 k3
  show "\<exists>w'. Retry m (returning fn) (answering sr) w = Some (error_of fn (app w) (nat m), w') \<and>
           invocations (trace w') = invocations (trace w) + (nat m + 1) \<and>
           app w' = state_after fn (app w) (nat m + 1)"
    by (simp add: Retry_run[OF k] invocations_rounds del: upt_Suc)
qed

theorem Retry_invocations_witness:
  "(\<exists>w'. Retry 2 (returning (\<lambda>s::nat. (SdkError ''Unknown'' ''busy'' 503 [] ErrNil, s + 1)))
            (answering (Some retryable)) \<lparr>app = 0, rand_src = (\<lambda>i. 7), rand_pos = 0, trace = []\<rparr>
          = Some (SdkError ''Unknown'' ''busy'' 503 [] ErrNil, w') \<and>
        invocations (trace w') = 3 \<and> app w' = 3) \<and>
   (\<exists>w'. Retry 2 (returning (\<lambda>s::nat. (SdkError ''InvalidParameter'' ''bad'' 400 [] ErrNil, s + 1)))
            (answering (Some retryable)) \<lparr>app = 0, rand_src = (\<lambda>i. 7), rand_pos = 0, trace = []\<rparr>
          = Some (SdkError ''InvalidParameter'' ''bad'' 400 [] ErrNil, w') \<and>
        invocations (trace w') = 1 \<and> app w' = 1) \<and>
   (\<exists>w'. Retry (- 4) (returning (\<lambda>s::nat. (SdkError ''Unknown'' ''busy'' 503 [] ErrNil, s + 1)))
            (answering None) \<lparr>app = 0, rand_src = (\<lambda>i. 7), rand_pos = 0, trace = []\<rparr>
          = Some (SdkError ''Unknown'' ''busy'' 503 [] ErrNil, w') \<and>
        invocations (trace w') = 1 \<and> app w' = 1)"
  using
    Retry_invocations [of 2
      "\<lambda>s::nat. (SdkError ''Unknown'' ''busy'' 503 [] ErrNil, s + 1)" "Some retryable"
      "\<lparr>app = 0, rand_src = (\<lambda>i. 7), rand_pos = 0, trace = []\<rparr>"]
    Retry_invocations [of 2
      "\<lambda>s::nat. (SdkError ''InvalidParameter'' ''bad'' 400 [] ErrNil, s + 1)" "Some retryable"
      "\<lparr>app = 0, rand_src = (\<lambda>i. 7), rand_pos = 0, trace = []\<rparr>", THEN conjunct2, THEN conjunct1, THEN spec, of 0]
    Retry_invocations [of "- 4"
      "\<lambda>s::nat. (SdkError ''Unknown'' ''busy'' 503 [] ErrNil, s + 1)" None
      "\<lparr>app = 0, rand_src = (\<lambda>i. 7), rand_pos = 0, trace = []\<rparr>"]
  by (simp add: error_of_def final_def retryable_def invocations_def numeral_3_eq_3)

text \<open>
  C8. In every run of \<^verbatim>\<open>Retry\<close> the trace is: the first attempt, then for
  \<open>k = 1, 2, ...\<close> the sleep number \<open>k\<close> followed by attempt \<open>k + 1\<close>. Sleep \<open>k\<close> is
  the delay plus the jitter, capped at the maximum backoff; the delay starts at the
  initial backoff and doubles, capped, after each sleep; the jitter lies in
  \<open>[0, delay)\<close> whatever the random source delivers; so the sleep lies between
  \<open>base * 2^(k-1)\<close> and \<open>base * 2^k\<close>, both capped at the maximum backoff; while
  \<open>base * 2^k\<close> is within the maximum backoff nothing is capped, and the sleep is
  \<open>delay + jitter\<close> in \<open>[base * 2^(k-1), base * 2^k)\<close>.
\<close>

theorem Retry_backoff:
  assumes "Retry m (returning fn) (answering sr) w = Some (err, w')"
  shows "(\<exists>n. trace w' = trace w @ Invoked (error_of fn (app w) 0) #
            concat (map (\<lambda>k. [Slept (nth_sleep w k), Invoked (error_of fn (app w) k)])
                      [1..<Suc n])) \<and>
         nth_delay 1 = defaultInitialBackoff \<and>
         (\<forall>k. 1 \<le> k \<longrightarrow>
            nth_delay (Suc k) = min (2 * nth_delay k) defaultMaxBackoff \<and>
            0 \<le> nth_jitter w k \<and> nth_jitter w k < nth_delay k \<and>
            nth_sleep w k = min (nth_delay k + nth_jitter w k) defaultMaxBackoff \<and>
            min (defaultInitialBackoff * 2 ^ (k - 1)) defaultMaxBackoff \<le> nth_sleep w k \<and>
            nth_sleep w k \<le> min (defaultInitialBackoff * 2 ^ k) defaultMaxBackoff \<and>
            nth_sleep w k \<le> defaultMaxBackoff \<and>
            (defaultInitialBackoff * 2 ^ k \<le> defaultMaxBackoff \<longrightarrow>
               nth_delay k = defaultInitialBackoff * 2 ^ (k - 1) \<and>
               nth_sleep w k = nth_delay k + nth_jitter w k \<and>
               nth_sleep w k < defaultInitialBackoff * 2 ^ k))"
proof (intro conjI allI impI)
  let ?M = "if m < 0 then 0 else m"
  have "0 \<le> ?M" by simp
  from run_exists[OF this, of "\<lambda>i. final sr (error_of fn (app w) i)"]
  obtain k where k: "int k \<le> ?M" "\<forall>i<k. \<not> final sr (error_of fn (app w) i)"
    "final sr (error_of fn (app w) k) \<or> int k = ?M" by blast
  have "trace w' = trace w @ Invoked (error_of fn (app w) 0) #
            concat (map (\<lambda>k. [Slept (nth_sleep w k), Invoked (error_of fn (app w) k)])
                      [1..<Suc k])"
    using assms unfolding Retry_run[OF k] by auto
  then show "\<exists>n. trace w' = trace w @ Invoked (error_of fn (app w) 0) #
            concat (map (\<lambda>k. [Slept (nth_sleep w k), Invoked (error_of fn (app w) k)])
                      [1..<Suc n])" by blast
next
  show "nth_delay 1 = defaultInitialBackoff"
    using defaultInitialBackoff_le by (simp add: nth_delay_def)
next
  fix k :: nat assume "1 \<le> k"
  then show "nth_delay (Suc k) = min (2 * nth_delay k) defaultMaxBackoff" by (rule nth_delay_Suc)
next
  fix k :: nat show "0 \<le> nth_jitter w k" using nth_jitter_range by blast
next
  fix k :: nat show "nth_jitter w k < nth_delay k" using nth_jitter_range by blast
next
  fix k :: nat show "nth_sleep w k = min (nth_delay k + nth_jitter w k) defaultMaxBackoff"
    by (simp add: nth_sleep_def)
next
  fix k :: nat show "min (defaultInitialBackoff * 2 ^ (k - 1)) defaultMaxBackoff \<le> nth_sleep w k"
    using nth_sleep_lower[of k w] by (simp add: nth_delay_def)
next
  fix k :: nat assume "1 \<le> k"
  then show "nth_sleep w k \<le> min (defaultInitialBackoff * 2 ^ k) defaultMaxBackoff"
    by (rule nth_sleep_upper)
next
  fix k :: nat show "nth_sleep w k \<le> defaultMaxBackoff" by (simp add: nth_sleep_def)
next
  fix k :: nat
  assume "1 \<le> k" "defaultInitialBackoff * 2 ^ k \<le> defaultMaxBackoff"
  then show "nth_delay k = defaultInitialBackoff * 2 ^ (k - 1)"
    using nth_sleep_uncapped by blast
next
  fix k :: nat
  assume "1 \<le> k" "defaultInitialBackoff * 2 ^ k \<le> defaultMaxBackoff"
  then show "nth_sleep w k = nth_delay k + nth_jitter w k"
    using nth_sleep_uncapped by blast
next
  fix k :: nat
  assume "1 \<le> k" "defaultInitialBackoff * 2 ^ k \<le> defaultMaxBackoff"
  then show "nth_sleep w k < defaultInitialBackoff * 2 ^ k"
    using nth_sleep_uncapped by blast
qed

theorem Retry_backoff_witness:
  "Retry 2 (returning (\<lambda>s::nat. (SdkError ''Unknown'' ''busy'' 503 [] ErrNil, s + 1)))
      (answering (Some retryable)) \<lparr>app = 0, rand_src = (\<lambda>i. 7), rand_pos = 0, trace = []\<rparr>
   = Some (SdkError ''Unknown'' ''busy'' 503 [] ErrNil,
       \<lparr>app = 3, rand_src = (\<lambda>i. 7), rand_pos = 2,
        trace = [Invoked (SdkError ''Unknown'' ''busy'' 503 [] ErrNil), Slept 100000007,
                 Invoked (SdkError ''Unknown'' ''busy'' 503 [] ErrNil), Slept 200000007,
                 Invoked (SdkError ''Unknown'' ''busy'' 503 [] ErrNil)]\<rparr>) \<and>
   nth_sleep \<lparr>app = 0::nat, rand_src = (\<lambda>i. 7), rand_pos = 0, trace = []\<rparr> 2 = 200000007 \<and>
   min (defaultInitialBackoff * 2 ^ (2 - 1)) defaultMaxBackoff
     \<le> nth_sleep \<lparr>app = 0::nat, rand_src = (\<lambda>i. 7), rand_pos = 0, trace = []\<rparr> 2 \<and>
   nth_sleep \<lparr>app = 0::nat, rand_src = (\<lambda>i. 7), rand_pos = 0, trace = []\<rparr> 2
     \<le> min (defaultInitialBackoff * 2 ^ 2) defaultMaxBackoff \<and>
   nth_sleep \<lparr>app = 0::nat, rand_src = (\<lambda>i. 7), rand_pos = 0, trace = []\<rparr> 2
     < defaultInitialBackoff * 2 ^ 2"
proof -
  have run: "Retry 2 (returning (\<lambda>s::nat. (SdkError ''Unknown'' ''busy'' 503 [] ErrNil, s + 1)))
      (answering (Some retryable)) \<lparr>app = 0, rand_src = (\<lambda>i. 7), rand_pos = 0, trace = []\<rparr>
   = Some (SdkError ''Unknown'' ''busy'' 503 [] ErrNil,
       \<lparr>app = 3, rand_src = (\<lambda>i. 7), rand_pos = 2,
        trace = [Invoked (SdkError ''Unknown'' ''busy'' 503 [] ErrNil), Slept 100000007,
                 Invoked (SdkError ''Unknown'' ''busy'' 503 [] ErrNil), Slept 200000007,
                 Invoked (SdkError ''Unknown'' ''busy'' 503 [] ErrNil)]\<rparr>)"
    by (simp add: Retry_def retry_loop.simps invoke_def returning_def answering_def retryable_def
          backoff_def Int63n_def Sleep_def defaultInitialBackoff_def defaultMaxBackoff_def backoffMultiplier_def Second_def
          Millisecond_def Let_def)
  have "(1::nat) \<le> 2" "defaultInitialBackoff * 2 ^ 2 \<le> defaultMaxBackoff"
    by (simp_all add: defaultInitialBackoff_def defaultMaxBackoff_def Second_def Millisecond_def)
  with Retry_backoff [OF run] have
    "min (defaultInitialBackoff * 2 ^ (2 - 1)) defaultMaxBackoff
       \<le> nth_sleep \<lparr>app = 0::nat, rand_src = (\<lambda>i. 7), rand_pos = 0, trace = []\<rparr> 2 \<and>
     nth_sleep \<lparr>app = 0::nat, rand_src = (\<lambda>i. 7), rand_pos = 0, trace = []\<rparr> 2
       \<le> min (defaultInitialBackoff * 2 ^ 2) defaultMaxBackoff \<and>
     nth_sleep \<lparr>app = 0::nat, rand_src = (\<lambda>i. 7), rand_pos = 0, trace = []\<rparr> 2
       < defaultInitialBackoff * 2 ^ 2"
    by blast
  moreover have
    "nth_sleep \<lparr>app = 0::nat, rand_src = (\<lambda>i. 7), rand_pos = 0, trace = []\<rparr> 2 = 200000007"
    by (simp add: nth_sleep_def nth_jitter_def nth_delay_def defaultInitialBackoff_def
          defaultMaxBackoff_def Second_def Millisecond_def)
  ultimately show ?thesis using run by blast
qed

section \<open>Construction and credentials\<close>

lemma example_transport_built:
  "New example_url_Parse (AuthAPIKey ''key'') [] = Inr (Client example_transport)"
  by (simp add: New_def newTransport_def AuthAPIKey_def DefaultConfig_def Let_def Version_def
        example_url_Parse_def example_transport_def)

lemma newTransport_rejects_empty_secret:
  assumes "kind a = authKindIAM \<and> (accessKey a = [] \<or> secretKey a = [])
           \<or> kind a = authKindAPIKey \<and> apiKey a = []
           \<or> kind a = authKindNone"
  shows "\<exists>message cause. newTransport parse cfg a
           = Inl (SdkError ErrCodeInvalidParameter message StatusBadRequest [] cause)"
  using assms
  by (cases "kind a")
     (auto simp: newTransport_def NewInvalidParameterError_def NewErrorWithStatusCode_def
        NewErrorWithCause_def Let_def split: sum.splits)

lemma newTransport_accepts:
  assumes "Endpoint cfg \<noteq> []" "parse (Endpoint cfg) = Inr u"
    and "kind a = authKindIAM \<and> accessKey a \<noteq> [] \<and> secretKey a \<noteq> []
         \<or> kind a = authKindAPIKey \<and> apiKey a \<noteq> []"
  shows "\<exists>t. newTransport parse cfg a = Inr t \<and>
           auth t = (if kind a = authKindIAM
                     then iamAuth (accessKey a) (secretKey a)
                            (if Region cfg = [] then Region DefaultConfig else Region cfg)
                     else apiKeyAuth (apiKey a)) \<and>
           0 \<le> MaxRetries (config t)"
  using assms
  by (cases "kind a") (auto simp: newTransport_def Let_def)

text \<open>
  C5 (as amended). A client built with \<^verbatim>\<open>New\<close> from access-key credentials with an empty
  access key or an empty secret key, from bearer credentials with an empty token, or from
  the no-auth credential fails with an SDK error of code InvalidParameter and status 400,
  whatever the options. A client built from access-key credentials with both keys
  non-empty, or from a non-empty bearer token, succeeds when the configured endpoint is
  non-empty and parses as a URL.
\<close>

theorem New_credentials:
  "((kind a = authKindIAM \<and> (accessKey a = [] \<or> secretKey a = [])
       \<or> kind a = authKindAPIKey \<and> apiKey a = []
       \<or> kind a = authKindNone) \<longrightarrow>
      (\<exists>message cause. New parse a opts
          = Inl (SdkError ErrCodeInvalidParameter message StatusBadRequest [] cause))) \<and>
   ((kind a = authKindIAM \<and> accessKey a \<noteq> [] \<and> secretKey a \<noteq> []
       \<or> kind a = authKindAPIKey \<and> apiKey a \<noteq> []) \<and>
     Endpoint (fold (\<lambda>opt cfg. opt cfg) opts DefaultConfig) \<noteq> [] \<and>
     (\<exists>u. parse (Endpoint (fold (\<lambda>opt cfg. opt cfg) opts DefaultConfig)) = Inr u) \<longrightarrow>
      (\<exists>t. New parse a opts = Inr (Client t)))"
proof (intro conjI impI)
  assume "kind a = authKindIAM \<and> (accessKey a = [] \<or> secretKey a = [])
       \<or> kind a = authKindAPIKey \<and> apiKey a = []
       \<or> kind a = authKindNone"
  from newTransport_rejects_empty_secret[OF this]
  obtain message cause where
    "newTransport parse (fold (\<lambda>opt cfg. opt cfg) opts DefaultConfig) a
       = Inl (SdkError ErrCodeInvalidParameter message StatusBadRequest [] cause)"
    by blast
  then have "New parse a opts
          = Inl (SdkError ErrCodeInvalidParameter message StatusBadRequest [] cause)"
    by (simp add: New_def Let_def)
  then show "\<exists>message cause. New parse a opts
          = Inl (SdkError ErrCodeInvalidParameter message StatusBadRequest [] cause)"
    by blast
next
  let ?cfg = "fold (\<lambda>opt cfg. opt cfg) opts DefaultConfig"
  assume h: "(kind a = authKindIAM \<and> accessKey a \<noteq> [] \<and> secretKey a \<noteq> []
       \<or> kind a = authKindAPIKey \<and> apiKey a \<noteq> []) \<and>
     Endpoint ?cfg \<noteq> [] \<and> (\<exists>u. parse (Endpoint ?cfg) = Inr u)"
  then obtain u where u: "parse (Endpoint ?cfg) = Inr u" by blast
  from h have e: "Endpoint ?cfg \<noteq> []" by blast
  from h have k: "kind a = authKindIAM \<and> accessKey a \<noteq> [] \<and> secretKey a \<noteq> []
       \<or> kind a = authKindAPIKey \<and> apiKey a \<noteq> []" by blast
  from newTransport_accepts[of ?cfg parse u a, OF e u k] obtain t where "newTransport parse ?cfg a = Inr t" by blast
  then show "\<exists>t. New parse a opts = Inr (Client t)"
    by (simp add: New_def Let_def)
qed

theorem New_credentials_witness:
  "(\<exists>message cause.
      New example_url_Parse (AuthIAM ''AK'' []) []
      = Inl (SdkError ErrCodeInvalidParameter message StatusBadRequest [] cause)) \<and>
   (\<exists>message cause.
      New example_url_Parse (AuthAPIKey []) []
      = Inl (SdkError ErrCodeInvalidParameter message StatusBadRequest [] cause)) \<and>
   (\<exists>t. New example_url_Parse (AuthIAM ''AK'' ''SK'') [WithRegion ''cn-shanghai'']
      = Inr (Client t)) \<and>
   (\<exists>t. New example_url_Parse (AuthAPIKey ''key'') [WithEndpoint ''https://example.com'']
      = Inr (Client t)) \<and>
   (\<exists>message cause.
      New example_url_Parse AuthNone [WithMaxRetries 0]
      = Inl (SdkError ErrCodeInvalidParameter message StatusBadRequest [] cause))"
  using
    New_credentials [of AuthNone example_url_Parse "[WithMaxRetries 0]"]
    New_credentials [of "AuthIAM ''AK'' []" example_url_Parse "[]"]
    New_credentials [of "AuthAPIKey []" example_url_Parse "[]"]
    New_credentials [of "AuthIAM ''AK'' ''SK''" example_url_Parse "[WithRegion ''cn-shanghai'']"]
    New_credentials [of "AuthAPIKey ''key''" example_url_Parse
      "[WithEndpoint ''https://example.com'']"]
  by (simp add: AuthIAM_def AuthAPIKey_def AuthNone_def DefaultConfig_def WithRegion_def
        WithEndpoint_def example_url_Parse_def)

theorem New_AuthNone_counterexample:
  "New example_url_Parse AuthNone []
   = Inl (SdkError ''InvalidParameter'' ''no auth'' 400 [] ErrNil)"
  by (simp add: New_def newTransport_def AuthNone_def DefaultConfig_def Let_def
        NewInvalidParameterError_def NewErrorWithStatusCode_def example_url_Parse_def)

text \<open>
  C6 (as amended). \<^verbatim>\<open>newTransport\<close> rejects the no-auth credential kind: with an endpoint
  that is non-empty and parses, the result is the InvalidParameter error "no auth", so no
  transport it returns holds the no-auth authenticator. The no-auth authenticator's apply
  step itself is the identity: it returns the request unchanged and no error.
\<close>

theorem noAuth_rejected:
  "(kind a = authKindNone \<longrightarrow>
      newTransport parse cfg a
        = Inl (if Endpoint cfg = [] then NewInvalidParameterError ''endpoint cannot be empty''
               else case parse (Endpoint cfg) of
                      Inl err \<Rightarrow> NewErrorWithCause ErrCodeInvalidParameter ''invalid endpoint''
                                   err StatusBadRequest
                    | Inr u \<Rightarrow> NewInvalidParameterError ''no auth'')) \<and>
   (\<forall>t. newTransport parse cfg a = Inr t \<longrightarrow> auth t \<noteq> noAuth) \<and>
   authenticator_apply canon sign noAuth req x = Inr req"
proof (intro conjI impI allI)
  assume "kind a = authKindNone"
  then show "newTransport parse cfg a
        = Inl (if Endpoint cfg = [] then NewInvalidParameterError ''endpoint cannot be empty''
               else case parse (Endpoint cfg) of
                      Inl err \<Rightarrow> NewErrorWithCause ErrCodeInvalidParameter ''invalid endpoint''
                                   err StatusBadRequest
                    | Inr u \<Rightarrow> NewInvalidParameterError ''no auth'')"
    by (simp add: newTransport_def Let_def split: sum.splits)
next
  fix t assume "newTransport parse cfg a = Inr t"
  then show "auth t \<noteq> noAuth"
    by (cases "kind a")
       (auto simp: newTransport_def Let_def split: sum.splits if_splits)
next
  show "authenticator_apply canon sign noAuth req x = Inr req" by simp
qed

theorem noAuth_rejected_witness:
  "newTransport example_url_Parse (DefaultConfig\<lparr>Endpoint := ''//localhost:8080''\<rparr>) AuthNone
   = Inl (NewInvalidParameterError ''no auth'') \<and>
   (\<exists>t. newTransport example_url_Parse (DefaultConfig\<lparr>Endpoint := ''//localhost:8080''\<rparr>)
          (AuthAPIKey ''key'') = Inr t \<and>
        auth t \<noteq> noAuth)"
proof -
  let ?cfg = "DefaultConfig\<lparr>Endpoint := ''//localhost:8080''\<rparr>"
  have k: "kind AuthNone = authKindNone" by (simp add: AuthNone_def)
  obtain t where t: "newTransport example_url_Parse ?cfg (AuthAPIKey ''key'') = Inr t"
    by (simp add: newTransport_def AuthAPIKey_def DefaultConfig_def Let_def
          example_url_Parse_def)
  from noAuth_rejected [of AuthNone example_url_Parse ?cfg, THEN conjunct1] k
  have "newTransport example_url_Parse ?cfg AuthNone = Inl (NewInvalidParameterError ''no auth'')"
    by (simp add: DefaultConfig_def example_url_Parse_def)
  moreover
  from noAuth_rejected [of "AuthAPIKey ''key''" example_url_Parse ?cfg, THEN conjunct2,
      THEN conjunct1] t
  have "auth t \<noteq> noAuth" by blast
  ultimately show ?thesis using t by blast
qed

theorem newTransport_AuthNone_counterexample:
  "\<not> (\<exists>t. newTransport example_url_Parse (DefaultConfig\<lparr>Endpoint := ''https://example.com''\<rparr>)
            AuthNone = Inr t)"
  by (simp add: newTransport_def AuthNone_def DefaultConfig_def Let_def example_url_Parse_def)

section \<open>The response decoder\<close>

text \<open>
  C3 (as amended). For a response whose body was read and whose status is outside
  \<open>[200, 300)\<close>, \<^verbatim>\<open>ParseResponse\<close> decodes the body as the envelope; when decoding
  succeeds and the code or the message is non-empty, the result is the SDK error with
  that code, message and request id and the HTTP status; otherwise (decoding failed, or
  code and message are both empty, whatever the request id) it is the SDK error of code
  Unknown whose message is "unexpected <status> response: <body>", with the HTTP status.
\<close>

theorem ParseResponse_error_status:
  assumes "RespBody resp = Inr body"
    and "RespStatusCode resp < 200 \<or> 300 \<le> RespStatusCode resp"
    and "dec_errResp body errResp_zero = (parseErr, e)"
  shows "ParseResponse dec_errResp dec resp result =
     (if parseErr = ErrNil \<and> (errResp_Code e \<noteq> [] \<or> errResp_Message e \<noteq> []) then
        (SdkError (errResp_Code e) (errResp_Message e) (RespStatusCode resp)
           (errResp_RequestID e) ErrNil, result)
      else
        (SdkError ErrCodeUnknown
           (''unexpected '' @ format_int (RespStatusCode resp) @ '' response: '' @ body)
           (RespStatusCode resp) [] ErrNil, result))"
  using assms
  by (auto simp: ParseResponse_def ParseJSONUseNumber_def NewErrorWithRequestID_def
        NewErrorWithCause_def)

theorem ParseResponse_error_status_witness:
  \<open>ParseResponse example_decoder (\<lambda>input (obj::unit). (ErrNil, obj))
     \<lparr>RespStatusCode = 500,
      RespBody = Inr ''{"code":"ServiceUnavailable","message":"x","request_id":"r1"}''\<rparr>
     (Some ())
   = (SdkError ''ServiceUnavailable'' ''x'' 500 ''r1'' ErrNil, Some ()) \<and>
   ParseResponse example_decoder (\<lambda>input (obj::unit). (ErrNil, obj))
     \<lparr>RespStatusCode = 429, RespBody = Inr []\<rparr> (Some ())
   = (SdkError ''Unknown'' ''unexpected 429 response: '' 429 [] ErrNil, Some ())\<close>
  using
    ParseResponse_error_status [of
      \<open>\<lparr>RespStatusCode = 500,
        RespBody = Inr ''{"code":"ServiceUnavailable","message":"x","request_id":"r1"}''\<rparr>\<close>
      \<open>''{"code":"ServiceUnavailable","message":"x","request_id":"r1"}''\<close>
      example_decoder ErrNil
      \<open>\<lparr>errResp_Code = ''ServiceUnavailable'', errResp_Message = ''x'',
        errResp_RequestID = ''r1''\<rparr>\<close>
      \<open>\<lambda>input (obj::unit). (ErrNil, obj)\<close> \<open>Some ()\<close>]
    ParseResponse_error_status [of
      \<open>\<lparr>RespStatusCode = 429, RespBody = Inr []\<rparr>\<close> \<open>[]\<close>
      example_decoder \<open>Foreign ''invalid character''\<close> errResp_zero
      \<open>\<lambda>input (obj::unit). (ErrNil, obj)\<close> \<open>Some ()\<close>]
  by (simp add: example_decoder_def format_int_def format_nat.simps)

theorem ParseResponse_request_id_only_counterexample:
  \<open>fst (example_decoder ''{"request_id":"r1"}'' errResp_zero) = ErrNil \<and>
   errResp_RequestID (snd (example_decoder ''{"request_id":"r1"}'' errResp_zero)) = ''r1'' \<and>
   ParseResponse example_decoder (\<lambda>input (obj::unit). (ErrNil, obj))
     \<lparr>RespStatusCode = 500, RespBody = Inr ''{"request_id":"r1"}''\<rparr> (Some ())
   = (SdkError ''Unknown'' ''unexpected 500 response: {"request_id":"r1"}'' 500 [] ErrNil,
      Some ())\<close>
  by (simp add: ParseResponse_def ParseJSONUseNumber_def errResp_zero_def NewErrorWithCause_def
        example_decoder_def format_int_def format_nat.simps)

lemma ParseResponse_success:
  assumes "200 \<le> RespStatusCode resp" "RespStatusCode resp < 300"
    and "RespBody resp = Inr body" "body \<noteq> []"
  shows "ParseResponse de dec resp (Some obj) =
     (if fst (dec body obj) = ErrNil then (ErrNil, Some (snd (dec body obj)))
      else (NewErrorWithCause ErrCodeUnknown ''failed to unmarshal response body''
              (fst (dec body obj)) (RespStatusCode resp), Some (snd (dec body obj))))"
  using assms
  by (auto simp: ParseResponse_def ParseJSONUseNumber_def split: prod.splits)

lemma assign_TInterface: "assign foldName TInterface j cur = (valueInterface j, ErrNil)"
  by (cases j) (simp_all add: assign.simps)

lemma assign_TPtr:
  "assign foldName (TPtr elem) j cur =
     (if j = JNull then (VNil, ErrNil)
      else case assign foldName elem j (case cur of VPtr v \<Rightarrow> v | _ \<Rightarrow> zero_value elem) of
             (v, err) \<Rightarrow> (VPtr v, err))"
  by (subst assign.simps) simp

lemma assign_TFloat32:
  "assign foldName TFloat32 (JNumber lit) cur =
     (case ParseFloat 32 lit of
        Inl err \<Rightarrow> (cur, UnmarshalTypeError (JNumber lit))
      | Inr f \<Rightarrow> (VFloat32 f, ErrNil))"
  by (simp add: assign.simps)

lemma assign_TSlice:
  "assign foldName (TSlice elem) (JArray elements) cur =
     (case assign_elements foldName elem elements (case cur of VSlice vs \<Rightarrow> vs | _ \<Rightarrow> []) of
        (vs, err) \<Rightarrow> (VSlice vs, err))"
  by (simp add: assign.simps)

lemma assign_TMap:
  "assign foldName (TMap elem) (JObject members) cur =
     (case assign_entries foldName elem members (case cur of VMap m \<Rightarrow> m | _ \<Rightarrow> []) of
        (m, err) \<Rightarrow> (VMap m, err))"
  by (simp add: assign.simps)

lemma assign_TStruct:
  "assign foldName (TStruct fieldTypes) (JObject members) cur =
     (case assign_fields foldName fieldTypes members (case cur of VStruct vs \<Rightarrow> vs | _ \<Rightarrow> []) of
        (vs, err) \<Rightarrow> (VStruct vs, err))"
  by (simp add: assign.simps)

lemmas assign_rules = assign_TInterface assign_TPtr assign_TFloat32 assign_TSlice assign_TMap
  assign_TStruct

lemma bit_length_numeral: "bit_length (numeral n) = Suc (bit_length (numeral n div 2))"
  by (subst bit_length.simps) simp

lemma bit_length_0: "bit_length 0 = 0"
  by (simp add: bit_length.simps)

lemma bit_length_1: "bit_length 1 = 1" "bit_length (Suc 0) = 1"
  by (simp_all add: bit_length.simps)

lemmas number_rules = ParseInt_def ParseFloat_def decimal_of_def digits_value_def digit_value_def
  nearest_float_def round_half_even_def Let_def bit_length_numeral bit_length_0 bit_length_1

lemma float32_47: "ParseFloat 32 ''47'' = Inr 47" "ParseFloat 32 ''47.0'' = Inr 47"
  by (simp_all add: number_rules)

lemma float32_16777217: "ParseFloat 32 ''16777217'' = Inr 16777216"
  by (simp add: number_rules)

lemma zero_SearchResponse:
  "zero_value SearchResponse =
     VStruct [(''api'', VString []), (''message'', VString []), (''code'', VString []),
              (''request_id'', VString []), (''result'', VNil)]"
  by (simp add: SearchResponse_def)

lemma assign_hit:
  assumes "ParseFloat 32 lit = Inr f"
  shows "assign foldName SearchResponse
     (JObject [(''result'', JObject [(''data'', JArray [JObject
        [(''fields'', JObject [(''score'', JNumber lit)]), (''score'', JNumber lit)]])])])
     (zero_value SearchResponse)
   = (VStruct [(''api'', VString []), (''message'', VString []), (''code'', VString []),
        (''request_id'', VString []),
        (''result'', VPtr (VStruct
           [(''data'', VSlice [VStruct
               [(''id'', VNil), (''fields'', VMap [(''score'', VNumber lit)]),
                (''ann_score'', VFloat32 0), (''score'', VFloat32 f)]]),
            (''filter_matched_count'', VInt 0), (''total_return_count'', VInt 0),
            (''real_text_query'', VString []), (''token_usage'', VNil)]))],
      ErrNil)"
  unfolding zero_SearchResponse
  unfolding SearchResponse_def SearchResult_def SearchItemResult_def MapStr_def
  by (simp add: assign_rules find_field_def earliest_def assms)

lemma example_hit:
  assumes "example_scan body = Inr (JObject [(''result'', JObject [(''data'', JArray [JObject
        [(''fields'', JObject [(''score'', JNumber lit)]), (''score'', JNumber lit)]])])])"
    and "body \<noteq> []" and "ParseFloat 32 lit = Inr f"
  shows "ParseResponse example_decoder (Decoder_Decode example_scan (\<lambda>key. key) SearchResponse)
      \<lparr>RespStatusCode = 200, RespBody = Inr body\<rparr> (Some (zero_value SearchResponse))
   = (ErrNil,
      Some (VStruct
        [(''api'', VString []), (''message'', VString []), (''code'', VString []),
         (''request_id'', VString []),
         (''result'', VPtr (VStruct
            [(''data'', VSlice [VStruct
                [(''id'', VNil), (''fields'', VMap [(''score'', VNumber lit)]),
                 (''ann_score'', VFloat32 0), (''score'', VFloat32 f)]]),
             (''filter_matched_count'', VInt 0), (''total_return_count'', VInt 0),
             (''real_text_query'', VString []), (''token_usage'', VNil)]))]))"
  using assms(2)
  by (simp add: ParseResponse_success Decoder_Decode_def assms(1) assign_hit[OF assms(3)])

text \<open>
  C7 (as amended). For a response with a status in \<open>[200, 300)\<close>, a non-nil target and
  a non-empty body that is a JSON document, \<^verbatim>\<open>ParseResponse\<close> leaves in the target what
  \<^verbatim>\<open>Decode\<close> with \<^verbatim>\<open>UseNumber\<close> assigns to it, and returns nil or, after a type error
  of the decoder, the Unknown error that wraps it. What a number becomes depends on the
  place it lands in: in an \<^verbatim>\<open>interface{}\<close>, and so in a \<^verbatim>\<open>MapStr\<close>, it is kept as a
  \<^verbatim>\<open>json.Number\<close> that holds the literal; in a \<^verbatim>\<open>float32\<close> field it is converted to the
  nearest \<^verbatim>\<open>float32\<close>. In a search response a hit with the number \<open>lit\<close> under
  \<^verbatim>\<open>"score"\<close> both in its fields and on its own has the literal in \<^verbatim>\<open>Fields["score"]\<close>
  and the nearest \<^verbatim>\<open>float32\<close> in \<^verbatim>\<open>Score\<close>. The \<^verbatim>\<open>json.Number\<close> of the literal
  \<^verbatim>\<open>47\<close> converts to the \<^verbatim>\<open>int64\<close> 47 and to the \<^verbatim>\<open>float64\<close> 47, exactly.
\<close>

theorem ParseResponse_numbers:
  assumes "200 \<le> RespStatusCode resp \<and> RespStatusCode resp < 300"
    and "RespBody resp = Inr body \<and> body \<noteq> []"
    and "scan body = Inr doc"
  shows
    "ParseResponse de (Decoder_Decode scan foldName t) resp (Some obj) =
       (case assign foldName t doc obj of
          (obj', err) \<Rightarrow>
            (if err = ErrNil then ErrNil
             else NewErrorWithCause ErrCodeUnknown ''failed to unmarshal response body'' err
                    (RespStatusCode resp),
             Some obj')) \<and>
     assign foldName TInterface (JNumber lit) cur = (VNumber lit, ErrNil) \<and>
     assign foldName MapStr (JObject [(key, JNumber lit)]) VNil
       = (VMap [(key, VNumber lit)], ErrNil) \<and>
     assign foldName TFloat32 (JNumber lit) cur =
       (case ParseFloat 32 lit of
          Inl err \<Rightarrow> (cur, UnmarshalTypeError (JNumber lit))
        | Inr f \<Rightarrow> (VFloat32 f, ErrNil)) \<and>
     (\<forall>f. doc = JObject [(''result'', JObject [(''data'', JArray [JObject
                [(''fields'', JObject [(''score'', JNumber lit)]),
                 (''score'', JNumber lit)]])])] \<and>
          ParseFloat 32 lit = Inr f \<longrightarrow>
          ParseResponse de (Decoder_Decode scan foldName SearchResponse) resp
            (Some (zero_value SearchResponse))
          = (ErrNil,
             Some (VStruct
               [(''api'', VString []), (''message'', VString []), (''code'', VString []),
                (''request_id'', VString []),
                (''result'', VPtr (VStruct
                   [(''data'', VSlice [VStruct
                       [(''id'', VNil), (''fields'', VMap [(''score'', VNumber lit)]),
                        (''ann_score'', VFloat32 0), (''score'', VFloat32 f)]]),
                    (''filter_matched_count'', VInt 0), (''total_return_count'', VInt 0),
                    (''real_text_query'', VString []), (''token_usage'', VNil)]))]))) \<and>
     Number_Int64 ''47'' = Inr 47 \<and> Number_Float64 ''47'' = Inr 47"
proof (intro conjI allI impI)
  have d: "Decoder_Decode scan foldName t' body obj' =
             (snd (assign foldName t' doc obj'), fst (assign foldName t' doc obj'))" for t' obj'
    by (simp add: Decoder_Decode_def assms(3) split: prod.splits)
  show "ParseResponse de (Decoder_Decode scan foldName t) resp (Some obj) =
       (case assign foldName t doc obj of
          (obj', err) \<Rightarrow>
            (if err = ErrNil then ErrNil
             else NewErrorWithCause ErrCodeUnknown ''failed to unmarshal response body'' err
                    (RespStatusCode resp),
             Some obj'))"
    using assms(1,2) by (simp add: ParseResponse_success d split: prod.splits)
  show "assign foldName TInterface (JNumber lit) cur = (VNumber lit, ErrNil)"
    by (simp add: assign_TInterface)
  show "assign foldName MapStr (JObject [(key, JNumber lit)]) VNil
       = (VMap [(key, VNumber lit)], ErrNil)"
    by (simp add: MapStr_def assign_TMap assign_TInterface earliest_def)
  show "assign foldName TFloat32 (JNumber lit) cur =
       (case ParseFloat 32 lit of
          Inl err \<Rightarrow> (cur, UnmarshalTypeError (JNumber lit))
        | Inr f \<Rightarrow> (VFloat32 f, ErrNil))"
    by (rule assign_TFloat32)
  show "Number_Int64 ''47'' = Inr 47"
    by (simp add: Number_Int64_def number_rules)
  show "Number_Float64 ''47'' = Inr 47"
    by (simp add: Number_Float64_def number_rules)
  fix f
  assume h: "doc = JObject [(''result'', JObject [(''data'', JArray [JObject
                [(''fields'', JObject [(''score'', JNumber lit)]),
                 (''score'', JNumber lit)]])])] \<and>
          ParseFloat 32 lit = Inr f"
  then have f: "ParseFloat 32 lit = Inr f" by simp
  show "ParseResponse de (Decoder_Decode scan foldName SearchResponse) resp
            (Some (zero_value SearchResponse))
          = (ErrNil,
             Some (VStruct
               [(''api'', VString []), (''message'', VString []), (''code'', VString []),
                (''request_id'', VString []),
                (''result'', VPtr (VStruct
                   [(''data'', VSlice [VStruct
                       [(''id'', VNil), (''fields'', VMap [(''score'', VNumber lit)]),
                        (''ann_score'', VFloat32 0), (''score'', VFloat32 f)]]),
                    (''filter_matched_count'', VInt 0), (''total_return_count'', VInt 0),
                    (''real_text_query'', VString []), (''token_usage'', VNil)]))]))"
    using assms(1,2) h
    by (simp add: ParseResponse_success d assign_hit[OF f])
qed

theorem ParseResponse_numbers_witness:
  \<open>ParseResponse example_decoder (Decoder_Decode example_scan (\<lambda>key. key) SearchResponse)
      \<lparr>RespStatusCode = 200,
       RespBody = Inr ''{"result":{"data":[{"fields":{"score":47},"score":47}]}}''\<rparr>
      (Some (zero_value SearchResponse))
   = (ErrNil,
      Some (VStruct
        [(''api'', VString []), (''message'', VString []), (''code'', VString []),
         (''request_id'', VString []),
         (''result'', VPtr (VStruct
            [(''data'', VSlice [VStruct
                [(''id'', VNil), (''fields'', VMap [(''score'', VNumber ''47'')]),
                 (''ann_score'', VFloat32 0), (''score'', VFloat32 47)]]),
             (''filter_matched_count'', VInt 0), (''total_return_count'', VInt 0),
             (''real_text_query'', VString []), (''token_usage'', VNil)]))])) \<and>
   Number_Int64 ''47'' = Inr 47 \<and> Number_Float64 ''47'' = Inr 47\<close>
proof -
  have s: \<open>example_scan ''{"result":{"data":[{"fields":{"score":47},"score":47}]}}''
      = Inr (JObject [(''result'', JObject [(''data'', JArray [JObject
               [(''fields'', JObject [(''score'', JNumber ''47'')]),
                (''score'', JNumber ''47'')]])])])\<close>
    by (simp add: example_scan_def)
  have r: \<open>200 \<le> RespStatusCode \<lparr>RespStatusCode = 200,
       RespBody = Inr ''{"result":{"data":[{"fields":{"score":47},"score":47}]}}''\<rparr> \<and>
     RespStatusCode \<lparr>RespStatusCode = 200,
       RespBody = Inr ''{"result":{"data":[{"fields":{"score":47},"score":47}]}}''\<rparr> < 300\<close>
    by simp
  have b: \<open>RespBody \<lparr>RespStatusCode = 200,
       RespBody = Inr ''{"result":{"data":[{"fields":{"score":47},"score":47}]}}''\<rparr>
      = Inr ''{"result":{"data":[{"fields":{"score":47},"score":47}]}}'' \<and>
     ''{"result":{"data":[{"fields":{"score":47},"score":47}]}}'' \<noteq> []\<close>
    by simp
  note numbers = ParseResponse_numbers [where de = example_decoder and foldName = "\<lambda>key. key"
      and lit = "''47''" and scan = example_scan
      and body = \<open>''{"result":{"data":[{"fields":{"score":47},"score":47}]}}''\<close>
      and resp = \<open>\<lparr>RespStatusCode = 200,
         RespBody = Inr ''{"result":{"data":[{"fields":{"score":47},"score":47}]}}''\<rparr>\<close>
      and doc = "JObject [(''result'', JObject [(''data'', JArray [JObject
               [(''fields'', JObject [(''score'', JNumber ''47'')]),
                (''score'', JNumber ''47'')]])])]", OF r b s]
  from numbers [THEN conjunct2, THEN conjunct2, THEN conjunct2, THEN conjunct2, THEN conjunct1,
      THEN spec, where x = 47]
    numbers [THEN conjunct2, THEN conjunct2, THEN conjunct2, THEN conjunct2, THEN conjunct2]
  show ?thesis using float32_47(1) by simp
qed

theorem ParseResponse_float32_counterexample:
  \<open>ParseResponse example_decoder (Decoder_Decode example_scan (\<lambda>key. key) SearchResponse)
      \<lparr>RespStatusCode = 200,
       RespBody = Inr ''{"result":{"data":[{"fields":{"score":16777217},"score":16777217}]}}''\<rparr>
      (Some (zero_value SearchResponse))
   = (ErrNil,
      Some (VStruct
        [(''api'', VString []), (''message'', VString []), (''code'', VString []),
         (''request_id'', VString []),
         (''result'', VPtr (VStruct
            [(''data'', VSlice [VStruct
                [(''id'', VNil), (''fields'', VMap [(''score'', VNumber ''16777217'')]),
                 (''ann_score'', VFloat32 0), (''score'', VFloat32 16777216)]]),
             (''filter_matched_count'', VInt 0), (''total_return_count'', VInt 0),
             (''real_text_query'', VString []), (''token_usage'', VNil)]))])) \<and>
   Number_Int64 ''16777217'' = Inr 16777217 \<and> (16777216 :: rat) \<noteq> 16777217 \<and>
   ParseResponse example_decoder (Decoder_Decode example_scan (\<lambda>key. key) SearchResponse)
      \<lparr>RespStatusCode = 200,
       RespBody = Inr ''{"result":{"data":[{"fields":{"score":47.0},"score":47.0}]}}''\<rparr>
      (Some (zero_value SearchResponse))
   = (ErrNil,
      Some (VStruct
        [(''api'', VString []), (''message'', VString []), (''code'', VString []),
         (''request_id'', VString []),
         (''result'', VPtr (VStruct
            [(''data'', VSlice [VStruct
                [(''id'', VNil), (''fields'', VMap [(''score'', VNumber ''47.0'')]),
                 (''ann_score'', VFloat32 0), (''score'', VFloat32 47)]]),
             (''filter_matched_count'', VInt 0), (''total_return_count'', VInt 0),
             (''real_text_query'', VString []), (''token_usage'', VNil)]))])) \<and>
   ParseFloat 32 ''47.0'' = ParseFloat 32 ''47''\<close>
proof (intro conjI)
  show \<open>ParseResponse example_decoder (Decoder_Decode example_scan (\<lambda>key. key) SearchResponse)
      \<lparr>RespStatusCode = 200,
       RespBody = Inr ''{"result":{"data":[{"fields":{"score":16777217},"score":16777217}]}}''\<rparr>
      (Some (zero_value SearchResponse))
   = (ErrNil,
      Some (VStruct
        [(''api'', VString []), (''message'', VString []), (''code'', VString []),
         (''request_id'', VString []),
         (''result'', VPtr (VStruct
            [(''data'', VSlice [VStruct
                [(''id'', VNil), (''fields'', VMap [(''score'', VNumber ''16777217'')]),
                 (''ann_score'', VFloat32 0), (''score'', VFloat32 16777216)]]),
             (''filter_matched_count'', VInt 0), (''total_return_count'', VInt 0),
             (''real_text_query'', VString []), (''token_usage'', VNil)]))]))\<close>
    by (rule example_hit) (simp_all add: example_scan_def float32_16777217)
  show "Number_Int64 ''16777217'' = Inr 16777217"
    by (simp add: Number_Int64_def number_rules)
  show "(16777216 :: rat) \<noteq> 16777217" by simp
  show \<open>ParseResponse example_decoder (Decoder_Decode example_scan (\<lambda>key. key) SearchResponse)
      \<lparr>RespStatusCode = 200,
       RespBody = Inr ''{"result":{"data":[{"fields":{"score":47.0},"score":47.0}]}}''\<rparr>
      (Some (zero_value SearchResponse))
   = (ErrNil,
      Some (VStruct
        [(''api'', VString []), (''message'', VString []), (''code'', VString []),
         (''request_id'', VString []),
         (''result'', VPtr (VStruct
            [(''data'', VSlice [VStruct
                [(''id'', VNil), (''fields'', VMap [(''score'', VNumber ''47.0'')]),
                 (''ann_score'', VFloat32 0), (''score'', VFloat32 47)]]),
             (''filter_matched_count'', VInt 0), (''total_return_count'', VInt 0),
             (''real_text_query'', VString []), (''token_usage'', VNil)]))]))\<close>
    by (rule example_hit) (simp_all add: example_scan_def float32_47)
  show "ParseFloat 32 ''47.0'' = ParseFloat 32 ''47''"
    by (simp add: float32_47)
qed

section \<open>Calls: retry budget, serialization and failed exchanges\<close>

lemma retry_loop_agree:
  assumes "\<And>s err s'. fn s = Some (err, s') \<Longrightarrow> p err = q err"
  shows "retry_loop m fn (Some p) a d l w = retry_loop m fn (Some q) a d l w"
proof (induction "nat (m + 1 - a)" arbitrary: a d l w)
  case 0
  then have "\<not> a \<le> m" by simp
  then show ?case by (simp add: retry_loop.simps)
next
  case (Suc n)
  then have am: "a \<le> m" and n: "n = nat (m + 1 - (a + 1))" by simp_all
  have IH: "retry_loop m fn (Some p) (a + 1) d' l' w' = retry_loop m fn (Some q) (a + 1) d' l' w'"
    for d' l' w' using Suc.hyps(1)[OF n] .
  have pq: "p err = q err" if "invoke fn w1 = Some (err, w2)" for err w1 w2
    using that assms by (auto simp: invoke_def split: option.splits)
  show ?case
    unfolding retry_loop.simps[of m fn "Some p" a d l w] retry_loop.simps[of m fn "Some q" a d l w]
    using am by (auto simp: IH pq split: option.splits)
qed

lemma Retry_agree:
  assumes "\<And>s err s'. fn s = Some (err, s') \<Longrightarrow> p err = q err"
  shows "Retry m fn (Some p) w = Retry m fn (Some q) w"
  unfolding Retry_def Let_def by (rule retry_loop_agree[OF assms])

lemma IsRetryableError_answers:
  "err \<noteq> NilSdkError \<Longrightarrow> IsRetryableError err = Some (retryable err)"
  by (cases err) (auto simp: retryable_def)

lemma ParseResponse_error: "fst (ParseResponse de dec resp result) \<noteq> NilSdkError"
  by (auto simp: ParseResponse_def ParseJSONUseNumber_def NewErrorWithCause_def
        NewErrorWithRequestID_def split: sum.splits option.splits prod.splits)

lemma authenticator_error:
  "authenticator_apply canon sign a req x = Inl err \<Longrightarrow> err \<noteq> NilSdkError"
  by (cases a) (auto simp: NewInvalidParameterError_def NewErrorWithStatusCode_def split: if_splits)

lemma attempt_refused:
  assumes "body \<noteq> []" "\<not> accepted P c m p ro"
  shows "doRequest_attempt P c cx m p body ro s =
     Some (SdkError ErrCodeUnknown ''failed to create request'' StatusBadRequest []
             (http_NewRequest_error P (if m = [] then ''GET'' else m) (buildRequest_url P c p ro)),
           s)"
  using assms
  by (simp add: doRequest_attempt_def buildRequest_def NewRequestWithContext_def accepted_def
        Let_def NewErrorWithCause_def)

lemma buildRequest_accepted:
  assumes "body \<noteq> []" "accepted P c m p ro"
  shows "buildRequest P c cx m p body ro s =
     Some (authenticator_apply (CanonicalMIMEHeaderKey P) (credentials_Sign P) (auth c)
             (built_request P c cx m p body ro) (remote s),
           logged (Authenticated (built_request P c cx m p body ro)) s)"
  using assms
  by (simp add: buildRequest_def NewRequestWithContext_def accepted_def built_request_def
        Let_def split: sum.splits)

lemma attempt_accepted:
  assumes "body \<noteq> []" "accepted P c m p ro"
  shows "\<exists>err s'. doRequest_attempt P c cx m p body ro s = Some (err, s') \<and>
           err \<noteq> NilSdkError \<and>
           events s' = events s @ attempt_log P c (built_request P c cx m p body ro) (remote s) \<and>
           remote s' = world_after P c (built_request P c cx m p body ro) (remote s) \<and>
           (\<forall>cause. exchange_failure P c (built_request P c cx m p body ro) (remote s) = Some cause
              \<longrightarrow> err = SdkError ErrCodeHTTPRequestFailed ''failed to execute http request''
                           StatusServiceUnavailable [] cause)"
proof -
  let ?r = "built_request P c cx m p body ro"
  let ?s1 = "logged (Authenticated ?r) s"
  note b = buildRequest_accepted[OF assms, of cx s]
  show ?thesis
  proof (cases "authenticator_apply (CanonicalMIMEHeaderKey P) (credentials_Sign P) (auth c) ?r
                  (remote s)")
    case (Inl err)
    then show ?thesis using b authenticator_error[OF Inl]
      by (simp add: doRequest_attempt_def attempt_log_def world_after_def exchange_failure_def
            logged_def)
  next
    case (Inr r')
    obtain out x' where d: "client_Do P (httpClient c) r' (remote s) = (out, x')"
      by (cases "client_Do P (httpClient c) r' (remote s)")
    show ?thesis
    proof (cases out)
      case (Inl cause)
      then show ?thesis using b Inr d
        by (simp add: doRequest_attempt_def attempt_log_def world_after_def exchange_failure_def
              logged_def DoHTTPRequest_def NewErrorWithCause_def)
    next
      case (Inr resp)
      obtain e t' where pr: "ParseResponse (json_Decode_errResp P) (json_Decode P) resp
          (target s) = (e, t')"
        by (cases "ParseResponse (json_Decode_errResp P) (json_Decode P) resp (target s)")
      have "e \<noteq> NilSdkError" using ParseResponse_error[of "json_Decode_errResp P" "json_Decode P" resp "target s"] pr by simp
      then show ?thesis using b \<open>authenticator_apply (CanonicalMIMEHeaderKey P) (credentials_Sign P) (auth c) ?r (remote s) = Inr r'\<close> d Inr pr
        by (simp add: doRequest_attempt_def attempt_log_def world_after_def exchange_failure_def
              logged_def DoHTTPRequest_def)
    qed
  qed
qed

lemma attempt_total:
  assumes "body \<noteq> []"
  shows "\<exists>err s'. doRequest_attempt P c cx m p body ro s = Some (err, s') \<and> err \<noteq> NilSdkError"
proof (cases "accepted P c m p ro")
  case True
  from attempt_accepted[OF assms True, of cx s] show ?thesis by blast
next
  case False
  show ?thesis by (simp add: attempt_refused[OF assms False])
qed

lemma attempt_returning:
  assumes "body \<noteq> []"
  shows "doRequest_attempt P c cx m p body ro
           = returning (\<lambda>s. the (doRequest_attempt P c cx m p body ro s))"
proof (rule ext)
  fix s
  from attempt_total[OF assms, of P c cx m p ro s]
  obtain err s' where "doRequest_attempt P c cx m p body ro s = Some (err, s')" by blast
  then show "doRequest_attempt P c cx m p body ro s
           = returning (\<lambda>s. the (doRequest_attempt P c cx m p body ro s)) s"
    by (simp add: returning_def)
qed

lemma attempt_Retry:
  assumes "body \<noteq> []"
  shows "Retry n (doRequest_attempt P c cx m p body ro) (Some IsRetryableError) w =
         Retry n (returning (\<lambda>s. the (doRequest_attempt P c cx m p body ro s)))
           (answering (Some retryable)) w"
proof -
  have "Retry n (doRequest_attempt P c cx m p body ro) (Some IsRetryableError) w =
        Retry n (doRequest_attempt P c cx m p body ro) (Some (\<lambda>err. Some (retryable err))) w"
  proof (rule Retry_agree)
    fix s err s'
    assume "doRequest_attempt P c cx m p body ro s = Some (err, s')"
    with attempt_total[OF assms, of P c cx m p ro s] have "err \<noteq> NilSdkError" by auto
    then show "IsRetryableError err = Some (retryable err)" by (rule IsRetryableError_answers)
  qed
  then show ?thesis using attempt_returning[OF assms, of P c cx m p ro]
    by (simp add: answering_def)
qed

lemma upt_Suc_shift: "[0..<Suc n] = 0 # map Suc [0..<n]"
  by (simp add: upt_conv_Cons map_Suc_upt del: upt_Suc)

lemma attempts_accepted:
  assumes "body \<noteq> []" "accepted P c m p ro"
  shows "events (state_after (\<lambda>s. the (doRequest_attempt P c cx m p body ro s)) s n)
           = events s @ concat (map (\<lambda>i. attempt_log P c (built_request P c cx m p body ro)
                                   ((world_after P c (built_request P c cx m p body ro) ^^ i)
                                      (remote s))) [0..<n]) \<and>
         remote (state_after (\<lambda>s. the (doRequest_attempt P c cx m p body ro s)) s n)
           = (world_after P c (built_request P c cx m p body ro) ^^ n) (remote s)"
proof (induction n arbitrary: s)
  case 0
  show ?case by simp
next
  case (Suc n)
  let ?g = "\<lambda>s. the (doRequest_attempt P c cx m p body ro s)"
  let ?r = "built_request P c cx m p body ro"
  from attempt_accepted[OF assms, of cx s]
  obtain err s' where st: "doRequest_attempt P c cx m p body ro s = Some (err, s')"
    "events s' = events s @ attempt_log P c ?r (remote s)"
    "remote s' = world_after P c ?r (remote s)" by blast
  have sa: "state_after ?g s (Suc n) = state_after ?g s' n" using st(1) by simp
  show ?case
    unfolding sa upt_Suc_shift
    by (simp add: Suc.IH[of s'] st(2,3) funpow_swap1 comp_def del: upt_Suc)
qed

lemma attempts_failing:
  assumes "body \<noteq> []" "accepted P c m p ro"
    and "exchange_failure P c (built_request P c cx m p body ro)
           ((world_after P c (built_request P c cx m p body ro) ^^ i) (remote s)) = Some cause"
  shows "error_of (\<lambda>s. the (doRequest_attempt P c cx m p body ro s)) s i
           = SdkError ErrCodeHTTPRequestFailed ''failed to execute http request''
               StatusServiceUnavailable [] cause"
proof -
  let ?g = "\<lambda>s. the (doRequest_attempt P c cx m p body ro s)"
  let ?r = "built_request P c cx m p body ro"
  have rs: "remote (state_after ?g s i) = (world_after P c ?r ^^ i) (remote s)"
    using attempts_accepted[OF assms(1,2), of cx s i] by blast
  from attempt_accepted[OF assms(1,2), of cx "state_after ?g s i"] assms(3) rs
  obtain s' where "doRequest_attempt P c cx m p body ro (state_after ?g s i)
      = Some (SdkError ErrCodeHTTPRequestFailed ''failed to execute http request''
               StatusServiceUnavailable [] cause, s')"
    by auto
  then show ?thesis by (simp add: error_of_def)
qed

lemma Retry_returning:
  "\<exists>k w'. Retry m (returning fn) (answering sr) w = Some (error_of fn (app w) k, w') \<and>
      app w' = state_after fn (app w) (Suc k) \<and>
      invocations (trace w') = invocations (trace w) + Suc k \<and>
      int k \<le> (if m < 0 then 0 else m) \<and>
      (\<forall>i<k. \<not> final sr (error_of fn (app w) i)) \<and>
      (final sr (error_of fn (app w) k) \<or> int k = (if m < 0 then 0 else m))"
proof -
  let ?M = "if m < 0 then 0 else m"
  have "0 \<le> ?M" by simp
  from run_exists[OF this, of "\<lambda>i. final sr (error_of fn (app w) i)"]
  obtain k where k: "int k \<le> ?M" "\<forall>i<k. \<not> final sr (error_of fn (app w) i)"
    "final sr (error_of fn (app w) k) \<or> int k = ?M" by blast
  show ?thesis
    using k by (intro exI[of _ k]) (simp add: Retry_run[OF k] invocations_rounds del: upt_Suc)
qed

lemma Body_Header_Set [simp]: "Body (Header_Set canon k v req) = Body req"
  by (simp add: Header_Set_def)

lemma Body_fold_Header_Set [simp]:
  "Body (fold (\<lambda>(k, v). Header_Set canon k v) hs req) = Body req"
  by (induction hs arbitrary: req) (auto)

lemma Body_built_request: "Body (built_request P c cx m p body ro) = Some body"
  by (simp add: built_request_def buildRequest_headers_def Let_def)

lemma attempt_logs_Serialized:
  "count_list (concat (map (\<lambda>i. attempt_log P c req (f i)) xs)) Serialized = 0"
  by (induction xs) (auto simp: attempt_log_def split: sum.splits)

lemma example_world_after:
  "(world_after (example_platform failure marshal) example_transport_iam req ^^ i) x = i + x"
  by (induction i)
     (simp_all add: world_after_def example_platform_def example_transport_iam_def
        example_transport_def SignRequestWithRegion_def)

lemma example_built_request:
  "built_request (example_platform failure marshal) example_transport_iam Background ''POST''
     ''/api/vikingdb/rerank'' ''{}'' (fold (\<lambda>opt ro. opt ro) [WithRequestMaxRetries n] defaultRequestOptions)
   = \<lparr>Context = Background, Method = ''POST'',
      URL = ''https://api.vector.bytedance.com/api/vikingdb/rerank'',
      Header = [(''Content-Type'', ''application/json''), (''Accept'', ''application/json''),
                (''User-Agent'', ''vikingdb-go-sdk/0.1.0'')],
      Body = Some ''{}''\<rparr>"
  by (simp add: built_request_def buildRequest_url_def buildRequest_headers_def Header_Set_def
        defaultRequestOptions_def WithRequestMaxRetries_def Let_def example_platform_def
        example_transport_iam_def example_transport_def)

lemma example_attempt_log:
  "attempt_log (example_platform failure marshal) example_transport_iam
     \<lparr>Context = Background, Method = ''POST'',
      URL = ''https://api.vector.bytedance.com/api/vikingdb/rerank'',
      Header = [(''Content-Type'', ''application/json''), (''Accept'', ''application/json''),
                (''User-Agent'', ''vikingdb-go-sdk/0.1.0'')],
      Body = Some ''{}''\<rparr> x
   = [Authenticated
        \<lparr>Context = Background, Method = ''POST'',
         URL = ''https://api.vector.bytedance.com/api/vikingdb/rerank'',
         Header = [(''Content-Type'', ''application/json''), (''Accept'', ''application/json''),
                   (''User-Agent'', ''vikingdb-go-sdk/0.1.0'')],
         Body = Some ''{}''\<rparr>,
      Sent
        \<lparr>Context = Background, Method = ''POST'',
         URL = ''https://api.vector.bytedance.com/api/vikingdb/rerank'',
         Header = [(''Content-Type'', ''application/json''), (''Accept'', ''application/json''),
                   (''User-Agent'', ''vikingdb-go-sdk/0.1.0''), (''X-Date'', format_nat x)],
         Body = Some ''{}''\<rparr>]"
  by (simp add: attempt_log_def SignRequestWithRegion_def Header_Set_def example_platform_def
        example_transport_iam_def example_transport_def)

lemma example_run:
  "\<exists>w'. doRequest (example_platform (Foreign ''connection refused'') (\<lambda>q. Inr ''{}''))
        example_transport_iam None ''POST'' ''/api/vikingdb/rerank'' (Some ())
        [WithRequestMaxRetries 1] example_world
      = Some (SdkError ''HTTPRequestFailed'' ''failed to execute http request'' 503 []
                (Foreign ''connection refused''), w') \<and> invocations (trace w') = 2"
    by (simp add: doRequest_def SerializeToJSON_def Let_def defaultRequestOptions_def
        WithRequestMaxRetries_def
        DefaultConfig_def Retry_def retry_loop.simps invoke_def backoff_def Int63n_def Sleep_def
        defaultInitialBackoff_def defaultMaxBackoff_def backoffMultiplier_def Second_def
        Millisecond_def doRequest_attempt_def buildRequest_def NewRequestWithContext_def
        buildRequest_url_def buildRequest_headers_def SignRequestWithRegion_def
        Header_Set_def logged_def DoHTTPRequest_def NewErrorWithCause_def invocations_def
        requestIDHeader_def example_platform_def example_transport_def example_transport_iam_def
        example_world_def)

text \<open>
  C9. \<^verbatim>\<open>doRequest\<close> runs \<^verbatim>\<open>Retry\<close> with this budget: the per-call override when it is
  positive; otherwise (override absent, that is 0, or zero or negative) the transport's
  \<^verbatim>\<open>MaxRetries\<close>, with 0 in place of a negative one. The override is what the options
  leave in \<^verbatim>\<open>MaxRetries\<close>: 0 without options, \<open>n\<close> when \<^verbatim>\<open>WithRequestMaxRetries(n)\<close>
  comes last.
\<close>

theorem doRequest_retry_budget:
  "(let requestOpts = fold (\<lambda>opt ro. opt ro) opts defaultRequestOptions;
        override = opt_MaxRetries requestOpts;
        budget = (if 0 < override then override
                  else if MaxRetries (config c) < 0 then 0 else MaxRetries (config c));
        cx' = (case cx of None \<Rightarrow> Background | Some given \<Rightarrow> given)
    in (request = None \<longrightarrow>
          doRequest P c cx method' path' request opts w =
            Retry budget (doRequest_attempt P c cx' method' path' [] requestOpts)
              (Some IsRetryableError) w) \<and>
       (\<forall>source body.
          request = Some source \<and> json_Marshal P source = Inr body \<longrightarrow>
          doRequest P c cx method' path' request opts w =
            Retry budget (doRequest_attempt P c cx' method' path' body requestOpts)
              (Some IsRetryableError) (w\<lparr>app := logged Serialized (app w)\<rparr>))) \<and>
   opt_MaxRetries (fold (\<lambda>opt ro. opt ro) [] defaultRequestOptions) = 0 \<and>
   opt_MaxRetries (fold (\<lambda>opt ro. opt ro) (opts @ [WithRequestMaxRetries n])
                    defaultRequestOptions) = n"
  by (auto simp: doRequest_def SerializeToJSON_def Let_def defaultRequestOptions_def
        WithRequestMaxRetries_def)

theorem doRequest_retry_budget_witness:
  "doRequest (example_platform (Foreign ''connection refused'') (\<lambda>q. Inr ''{}''))
      example_transport None ''POST'' ''/api/vikingdb/rerank'' (Some ())
      [WithRequestMaxRetries 5] example_world
   = Retry 5
       (doRequest_attempt (example_platform (Foreign ''connection refused'') (\<lambda>q. Inr ''{}''))
          example_transport Background ''POST'' ''/api/vikingdb/rerank'' ''{}''
          (defaultRequestOptions\<lparr>opt_MaxRetries := 5\<rparr>))
       (Some IsRetryableError)
       (example_world\<lparr>app := logged Serialized (app example_world)\<rparr>) \<and>
   doRequest (example_platform (Foreign ''connection refused'') (\<lambda>q. Inr ''{}''))
      example_transport None ''POST'' ''/api/vikingdb/rerank'' (Some ())
      [WithRequestMaxRetries (- 1)] example_world
   = Retry 3
       (doRequest_attempt (example_platform (Foreign ''connection refused'') (\<lambda>q. Inr ''{}''))
          example_transport Background ''POST'' ''/api/vikingdb/rerank'' ''{}''
          (defaultRequestOptions\<lparr>opt_MaxRetries := - 1\<rparr>))
       (Some IsRetryableError)
       (example_world\<lparr>app := logged Serialized (app example_world)\<rparr>) \<and>
   doRequest (example_platform (Foreign ''connection refused'') (\<lambda>q. Inr ''{}''))
      example_transport None ''POST'' ''/api/vikingdb/rerank'' None [] example_world
   = Retry 3
       (doRequest_attempt (example_platform (Foreign ''connection refused'') (\<lambda>q. Inr ''{}''))
          example_transport Background ''POST'' ''/api/vikingdb/rerank'' []
          defaultRequestOptions)
       (Some IsRetryableError) example_world"
  using
    doRequest_retry_budget [of "[]" example_transport None None
      "example_platform (Foreign ''connection refused'') (\<lambda>q. Inr ''{}'')"
      "''POST''" "''/api/vikingdb/rerank''" example_world]
    doRequest_retry_budget [of "[WithRequestMaxRetries 5]" example_transport None "Some ()"
      "example_platform (Foreign ''connection refused'') (\<lambda>q. Inr ''{}'')"
      "''POST''" "''/api/vikingdb/rerank''" example_world]
    doRequest_retry_budget [of "[WithRequestMaxRetries (- 1)]" example_transport None "Some ()"
      "example_platform (Foreign ''connection refused'') (\<lambda>q. Inr ''{}'')"
      "''POST''" "''/api/vikingdb/rerank''" example_world]
  by (simp add: Let_def defaultRequestOptions_def WithRequestMaxRetries_def DefaultConfig_def
        example_platform_def example_transport_def)

text \<open>
  C10. For a call with a request value: when serialization fails, \<^verbatim>\<open>doRequest\<close> returns
  the InvalidParameter error with nothing but the serialization in the log and nothing
  added to \<^verbatim>\<open>Retry\<close>'s trace, so no attempt was made and nothing is retried. When
  serialization yields the (non-empty) bytes \<open>body\<close>, the call returns after \<open>n \<ge> 1\<close>
  attempts and has serialized once. If \<^verbatim>\<open>net/http\<close> accepts the method and the URL of
  the call, the log is the serialization followed, for each of the \<open>n\<close> attempts in
  turn, by what that attempt did in the world it started in: it handed the authenticator
  the request built from \<open>body\<close> (the same request in every attempt, with \<open>body\<close> as
  its body) and, unless the authenticator returned an error, sent the request the
  authenticator returned in that world; the world after the call is the world after
  these \<open>n\<close> attempts. If \<^verbatim>\<open>net/http\<close> refuses the method or the URL, there is exactly
  one attempt, which builds no request, reaches neither the authenticator nor the
  network, and fails with the error of \<^verbatim>\<open>net/http\<close> wrapped as "failed to create
  request".
\<close>

theorem doRequest_serializes_once:
  assumes "request = Some source"
  shows
    "(\<forall>err. json_Marshal P source = Inl err \<longrightarrow>
        doRequest P c cx m p request opts w =
          Some (SdkError ErrCodeInvalidParameter ''failed to marshal request'' StatusBadRequest []
                  err,
                w\<lparr>app := logged Serialized (app w)\<rparr>)) \<and>
     (\<forall>body. json_Marshal P source = Inr body \<and> body \<noteq> [] \<longrightarrow>
        (let requestOpts = fold (\<lambda>opt ro. opt ro) opts defaultRequestOptions;
             cx' = (case cx of None \<Rightarrow> Background | Some given \<Rightarrow> given);
             req = built_request P c cx' m p body requestOpts
         in Body req = Some body \<and>
            (\<exists>err w' n.
               doRequest P c cx m p request opts w = Some (err, w') \<and>
               invocations (trace w') = invocations (trace w) + n \<and> 1 \<le> n \<and>
               count_list (events (app w')) Serialized
                 = count_list (events (app w)) Serialized + 1 \<and>
               (accepted P c m p requestOpts \<longrightarrow>
                  events (app w') = events (app w) @ Serialized #
                    concat (map (\<lambda>i. attempt_log P c req
                                   ((world_after P c req ^^ i) (remote (app w)))) [0..<n]) \<and>
                  remote (app w') = (world_after P c req ^^ n) (remote (app w))) \<and>
               (\<not> accepted P c m p requestOpts \<longrightarrow>
                  n = 1 \<and> events (app w') = events (app w) @ [Serialized] \<and>
                  remote (app w') = remote (app w) \<and>
                  err = SdkError ErrCodeUnknown ''failed to create request'' StatusBadRequest []
                          (http_NewRequest_error P (if m = [] then ''GET'' else m)
                             (buildRequest_url P c p requestOpts))))))"
proof (intro conjI allI impI)
  fix err assume "json_Marshal P source = Inl err"
  then show "doRequest P c cx m p request opts w =
          Some (SdkError ErrCodeInvalidParameter ''failed to marshal request'' StatusBadRequest []
                  err,
                w\<lparr>app := logged Serialized (app w)\<rparr>)"
    using assms by (simp add: doRequest_def SerializeToJSON_def Let_def NewErrorWithCause_def)
next
  fix body assume b: "json_Marshal P source = Inr body \<and> body \<noteq> []"
  define ro where "ro = fold (\<lambda>opt ro. opt ro) opts defaultRequestOptions"
  define cx' where "cx' = (case cx of None \<Rightarrow> Background | Some given \<Rightarrow> given)"
  define req where "req = built_request P c cx' m p body ro"
  define budget where "budget = (if opt_MaxRetries ro \<le> 0 then
       (if MaxRetries (config c) < 0 then 0 else MaxRetries (config c)) else opt_MaxRetries ro)"
  define w0 where "w0 = w\<lparr>app := logged Serialized (app w)\<rparr>"
  let ?A = "doRequest_attempt P c cx' m p body ro"
  let ?g = "\<lambda>s. the (?A s)"
  have bne: "body \<noteq> []" using b by simp
  have d: "doRequest P c cx m p request opts w = Retry budget ?A (Some IsRetryableError) w0"
    using assms b
    by (auto simp: doRequest_def SerializeToJSON_def Let_def ro_def cx'_def budget_def w0_def)
  have d': "doRequest P c cx m p request opts w
              = Retry budget (returning ?g) (answering (Some retryable)) w0"
    unfolding d by (rule attempt_Retry[OF bne])
  from Retry_returning[of budget ?g "Some retryable" w0]
  obtain k w' where r: "Retry budget (returning ?g) (answering (Some retryable)) w0
        = Some (error_of ?g (app w0) k, w')"
    "app w' = state_after ?g (app w0) (Suc k)"
    "invocations (trace w') = invocations (trace w0) + Suc k"
    "\<forall>i<k. \<not> final (Some retryable) (error_of ?g (app w0) i)" by blast
  have e0: "events (app w0) = events (app w) @ [Serialized]" "trace w0 = trace w"
    "remote (app w0) = remote (app w)"
    by (simp_all add: w0_def logged_def)
  have acc: "events (app w') = events (app w) @ Serialized #
                    concat (map (\<lambda>i. attempt_log P c req
                                   ((world_after P c req ^^ i) (remote (app w)))) [0..<Suc k]) \<and>
             remote (app w') = (world_after P c req ^^ Suc k) (remote (app w))"
    if a: "accepted P c m p ro"
    using attempts_accepted[OF bne a, of cx' "app w0" "Suc k"] r(2) e0
    by (simp add: req_def del: upt_Suc)
  have ref: "k = 0 \<and> events (app w') = events (app w) @ [Serialized] \<and>
             remote (app w') = remote (app w) \<and>
             error_of ?g (app w0) k =
               SdkError ErrCodeUnknown ''failed to create request'' StatusBadRequest []
                 (http_NewRequest_error P (if m = [] then ''GET'' else m)
                    (buildRequest_url P c p ro))"
    if a: "\<not> accepted P c m p ro"
  proof -
    have g: "?g s = (SdkError ErrCodeUnknown ''failed to create request'' StatusBadRequest []
                 (http_NewRequest_error P (if m = [] then ''GET'' else m)
                    (buildRequest_url P c p ro)), s)" for s
      by (simp add: attempt_refused[OF bne a])
    have f0: "final (Some retryable) (error_of ?g (app w0) 0)"
      by (simp add: error_of_def g final_def retryable_def)
    have k0: "k = 0" using r(4) f0 by (cases k) auto
    show ?thesis using r(2) e0 by (simp add: k0 g error_of_def)
  qed
  have cnt: "count_list (events (app w')) Serialized
               = count_list (events (app w)) Serialized + 1"
  proof (cases "accepted P c m p ro")
    case True
    then show ?thesis using acc by (simp add: attempt_logs_Serialized del: upt_Suc)
  next
    case False
    then show ?thesis using ref by simp
  qed
  have "\<exists>err w' n.
               doRequest P c cx m p request opts w = Some (err, w') \<and>
               invocations (trace w') = invocations (trace w) + n \<and> 1 \<le> n \<and>
               count_list (events (app w')) Serialized
                 = count_list (events (app w)) Serialized + 1 \<and>
               (accepted P c m p ro \<longrightarrow>
                  events (app w') = events (app w) @ Serialized #
                    concat (map (\<lambda>i. attempt_log P c req
                                   ((world_after P c req ^^ i) (remote (app w)))) [0..<n]) \<and>
                  remote (app w') = (world_after P c req ^^ n) (remote (app w))) \<and>
               (\<not> accepted P c m p ro \<longrightarrow>
                  n = 1 \<and> events (app w') = events (app w) @ [Serialized] \<and>
                  remote (app w') = remote (app w) \<and>
                  err = SdkError ErrCodeUnknown ''failed to create request'' StatusBadRequest []
                          (http_NewRequest_error P (if m = [] then ''GET'' else m)
                             (buildRequest_url P c p ro)))"
    using d' r(1,3) e0(2) acc ref cnt
    by (intro exI[of _ "error_of ?g (app w0) k"] exI[of _ w'] exI[of _ "Suc k"]) auto
  then show "let requestOpts = fold (\<lambda>opt ro. opt ro) opts defaultRequestOptions;
             cx' = (case cx of None \<Rightarrow> Background | Some given \<Rightarrow> given);
             req = built_request P c cx' m p body requestOpts
         in Body req = Some body \<and>
            (\<exists>err w' n.
               doRequest P c cx m p request opts w = Some (err, w') \<and>
               invocations (trace w') = invocations (trace w) + n \<and> 1 \<le> n \<and>
               count_list (events (app w')) Serialized
                 = count_list (events (app w)) Serialized + 1 \<and>
               (accepted P c m p requestOpts \<longrightarrow>
                  events (app w') = events (app w) @ Serialized #
                    concat (map (\<lambda>i. attempt_log P c req
                                   ((world_after P c req ^^ i) (remote (app w)))) [0..<n]) \<and>
                  remote (app w') = (world_after P c req ^^ n) (remote (app w))) \<and>
               (\<not> accepted P c m p requestOpts \<longrightarrow>
                  n = 1 \<and> events (app w') = events (app w) @ [Serialized] \<and>
                  remote (app w') = remote (app w) \<and>
                  err = SdkError ErrCodeUnknown ''failed to create request'' StatusBadRequest []
                          (http_NewRequest_error P (if m = [] then ''GET'' else m)
                             (buildRequest_url P c p requestOpts))))"
    unfolding Let_def ro_def[symmetric] cx'_def[symmetric] req_def[symmetric]
    by (simp add: req_def Body_built_request)
qed

theorem doRequest_serializes_once_witness:
  "doRequest
      (example_platform (Foreign ''connection refused'')
         (\<lambda>q. Inl (Foreign ''json: unsupported type'')))
      example_transport_iam None ''POST'' ''/api/vikingdb/rerank'' (Some ()) [] example_world
   = Some (SdkError ''InvalidParameter'' ''failed to marshal request'' 400 []
             (Foreign ''json: unsupported type''),
           example_world\<lparr>app := logged Serialized (app example_world)\<rparr>) \<and>
   (\<exists>err w'.
      doRequest (example_platform (Foreign ''connection refused'') (\<lambda>q. Inr ''{}''))
        example_transport_iam None ''POST'' ''/api/vikingdb/rerank'' (Some ())
        [WithRequestMaxRetries 1] example_world
      = Some (err, w') \<and>
      invocations (trace w') = 2 \<and>
      events (app w') =
        [Serialized,
         Authenticated
           \<lparr>Context = Background, Method = ''POST'',
            URL = ''https://api.vector.bytedance.com/api/vikingdb/rerank'',
            Header = [(''Content-Type'', ''application/json''), (''Accept'', ''application/json''),
                      (''User-Agent'', ''vikingdb-go-sdk/0.1.0'')],
            Body = Some ''{}''\<rparr>,
         Sent
           \<lparr>Context = Background, Method = ''POST'',
            URL = ''https://api.vector.bytedance.com/api/vikingdb/rerank'',
            Header = [(''Content-Type'', ''application/json''), (''Accept'', ''application/json''),
                      (''User-Agent'', ''vikingdb-go-sdk/0.1.0''), (''X-Date'', ''0'')],
            Body = Some ''{}''\<rparr>,
         Authenticated
           \<lparr>Context = Background, Method = ''POST'',
            URL = ''https://api.vector.bytedance.com/api/vikingdb/rerank'',
            Header = [(''Content-Type'', ''application/json''), (''Accept'', ''application/json''),
                      (''User-Agent'', ''vikingdb-go-sdk/0.1.0'')],
            Body = Some ''{}''\<rparr>,
         Sent
           \<lparr>Context = Background, Method = ''POST'',
            URL = ''https://api.vector.bytedance.com/api/vikingdb/rerank'',
            Header = [(''Content-Type'', ''application/json''), (''Accept'', ''application/json''),
                      (''User-Agent'', ''vikingdb-go-sdk/0.1.0''), (''X-Date'', ''1'')],
            Body = Some ''{}''\<rparr>] \<and>
      remote (app w') = 2) \<and>
   (\<exists>w'.
      doRequest (example_platform (Foreign ''connection refused'') (\<lambda>q. Inr ''{}''))
        example_transport_iam None ''BAD METHOD'' ''/api/vikingdb/rerank'' (Some ()) []
        example_world
      = Some (SdkError ''Unknown'' ''failed to create request'' 400 []
                (Foreign (''net/http: invalid method '' @ CHR 0x22 # ''BAD METHOD'' @ [CHR 0x22])), w') \<and>
      invocations (trace w') = 1 \<and> events (app w') = [Serialized] \<and> remote (app w') = 0)"
proof (intro conjI)
  let ?P = "example_platform (Foreign ''connection refused'') (\<lambda>q. Inr ''{}'')"
  let ?c = "example_transport_iam"
  have a: "Some () = Some ()" by simp
  show "doRequest
      (example_platform (Foreign ''connection refused'')
         (\<lambda>q. Inl (Foreign ''json: unsupported type'')))
      example_transport_iam None ''POST'' ''/api/vikingdb/rerank'' (Some ()) [] example_world
   = Some (SdkError ''InvalidParameter'' ''failed to marshal request'' 400 []
             (Foreign ''json: unsupported type''),
           example_world\<lparr>app := logged Serialized (app example_world)\<rparr>)"
    using doRequest_serializes_once [OF a, of
        "example_platform (Foreign ''connection refused'')
           (\<lambda>q. Inl (Foreign ''json: unsupported type''))"
        example_transport_iam None "''POST''" "''/api/vikingdb/rerank''" "[]" example_world,
        THEN conjunct1]
    by (simp add: example_platform_def)
  have acc: "accepted ?P ?c ''POST'' ''/api/vikingdb/rerank'' ro" for ro
    by (simp add: accepted_def example_platform_def)
  have m: "json_Marshal ?P () = Inr ''{}'' \<and> ''{}'' \<noteq> []"
    by (simp add: example_platform_def)
  from doRequest_serializes_once [OF a, of ?P ?c None "''POST''" "''/api/vikingdb/rerank''"
        "[WithRequestMaxRetries 1]" example_world, THEN conjunct2, THEN spec, THEN mp, OF m]
  obtain err w' n where t:
    "doRequest ?P ?c None ''POST'' ''/api/vikingdb/rerank'' (Some ()) [WithRequestMaxRetries 1]
       example_world = Some (err, w')"
    "invocations (trace w') = invocations (trace example_world) + n"
    "events (app w') = events (app example_world) @ Serialized #
       concat (map (\<lambda>i. attempt_log ?P ?c
                 (built_request ?P ?c Background ''POST'' ''/api/vikingdb/rerank'' ''{}''
                    (fold (\<lambda>opt ro. opt ro) [WithRequestMaxRetries 1] defaultRequestOptions))
                 ((world_after ?P ?c
                     (built_request ?P ?c Background ''POST'' ''/api/vikingdb/rerank'' ''{}''
                        (fold (\<lambda>opt ro. opt ro) [WithRequestMaxRetries 1]
                           defaultRequestOptions)) ^^ i)
                    (remote (app example_world)))) [0..<n])"
    "remote (app w') = (world_after ?P ?c
                     (built_request ?P ?c Background ''POST'' ''/api/vikingdb/rerank'' ''{}''
                        (fold (\<lambda>opt ro. opt ro) [WithRequestMaxRetries 1]
                           defaultRequestOptions)) ^^ n) (remote (app example_world))"
    unfolding Let_def using acc by auto
  from example_run t(1,2) have n: "n = 2"
    by (auto simp: example_world_def invocations_def)
  have two: "[0..<2] = [0, Suc 0]" by (simp add: upt_rec numeral_2_eq_2)
  have ev: "events (app w') = [Serialized,
         Authenticated
           \<lparr>Context = Background, Method = ''POST'',
            URL = ''https://api.vector.bytedance.com/api/vikingdb/rerank'',
            Header = [(''Content-Type'', ''application/json''), (''Accept'', ''application/json''),
                      (''User-Agent'', ''vikingdb-go-sdk/0.1.0'')],
            Body = Some ''{}''\<rparr>,
         Sent
           \<lparr>Context = Background, Method = ''POST'',
            URL = ''https://api.vector.bytedance.com/api/vikingdb/rerank'',
            Header = [(''Content-Type'', ''application/json''), (''Accept'', ''application/json''),
                      (''User-Agent'', ''vikingdb-go-sdk/0.1.0''), (''X-Date'', ''0'')],
            Body = Some ''{}''\<rparr>,
         Authenticated
           \<lparr>Context = Background, Method = ''POST'',
            URL = ''https://api.vector.bytedance.com/api/vikingdb/rerank'',
            Header = [(''Content-Type'', ''application/json''), (''Accept'', ''application/json''),
                      (''User-Agent'', ''vikingdb-go-sdk/0.1.0'')],
            Body = Some ''{}''\<rparr>,
         Sent
           \<lparr>Context = Background, Method = ''POST'',
            URL = ''https://api.vector.bytedance.com/api/vikingdb/rerank'',
            Header = [(''Content-Type'', ''application/json''), (''Accept'', ''application/json''),
                      (''User-Agent'', ''vikingdb-go-sdk/0.1.0''), (''X-Date'', ''1'')],
            Body = Some ''{}''\<rparr>]"
    unfolding t(3) n example_world_after example_built_request example_attempt_log two
    by (simp add: example_world_def format_nat.simps)
  have re: "remote (app w') = 2"
    unfolding t(4) n example_world_after by (simp add: example_world_def)
  show "\<exists>err w'.
      doRequest ?P example_transport_iam None ''POST'' ''/api/vikingdb/rerank'' (Some ())
        [WithRequestMaxRetries 1] example_world
      = Some (err, w') \<and>
      invocations (trace w') = 2 \<and>
      events (app w') =
        [Serialized,
         Authenticated
           \<lparr>Context = Background, Method = ''POST'',
            URL = ''https://api.vector.bytedance.com/api/vikingdb/rerank'',
            Header = [(''Content-Type'', ''application/json''), (''Accept'', ''application/json''),
                      (''User-Agent'', ''vikingdb-go-sdk/0.1.0'')],
            Body = Some ''{}''\<rparr>,
         Sent
           \<lparr>Context = Background, Method = ''POST'',
            URL = ''https://api.vector.bytedance.com/api/vikingdb/rerank'',
            Header = [(''Content-Type'', ''application/json''), (''Accept'', ''application/json''),
                      (''User-Agent'', ''vikingdb-go-sdk/0.1.0''), (''X-Date'', ''0'')],
            Body = Some ''{}''\<rparr>,
         Authenticated
           \<lparr>Context = Background, Method = ''POST'',
            URL = ''https://api.vector.bytedance.com/api/vikingdb/rerank'',
            Header = [(''Content-Type'', ''application/json''), (''Accept'', ''application/json''),
                      (''User-Agent'', ''vikingdb-go-sdk/0.1.0'')],
            Body = Some ''{}''\<rparr>,
         Sent
           \<lparr>Context = Background, Method = ''POST'',
            URL = ''https://api.vector.bytedance.com/api/vikingdb/rerank'',
            Header = [(''Content-Type'', ''application/json''), (''Accept'', ''application/json''),
                      (''User-Agent'', ''vikingdb-go-sdk/0.1.0''), (''X-Date'', ''1'')],
            Body = Some ''{}''\<rparr>] \<and>
      remote (app w') = 2"
    using t(1,2) n ev re by (intro exI[of _ err] exI[of _ w']) (simp add: example_world_def invocations_def)
  have nacc: "\<not> accepted ?P ?c ''BAD METHOD'' ''/api/vikingdb/rerank'' ro" for ro
    by (simp add: accepted_def example_platform_def)
  from doRequest_serializes_once [OF a, of ?P ?c None "''BAD METHOD''" "''/api/vikingdb/rerank''"
        "[]" example_world, THEN conjunct2, THEN spec, THEN mp, OF m]
  show "\<exists>w'.
      doRequest ?P example_transport_iam None ''BAD METHOD'' ''/api/vikingdb/rerank'' (Some ()) []
        example_world
      = Some (SdkError ''Unknown'' ''failed to create request'' 400 []
                (Foreign (''net/http: invalid method '' @ CHR 0x22 # ''BAD METHOD'' @ [CHR 0x22])), w') \<and>
      invocations (trace w') = 1 \<and> events (app w') = [Serialized] \<and> remote (app w') = 0"
    unfolding Let_def using nacc
    by (auto simp: example_world_def invocations_def example_platform_def)
qed

text \<open>
  C4 (as amended). Whatever error \<^verbatim>\<open>client.Do\<close> returns (the cancellation of the call's
  context, a refused connection, a DNS failure), \<^verbatim>\<open>DoHTTPRequest\<close> returns the SDK error
  of code HTTPRequestFailed and status 503 that wraps it: a cancellation and a network
  failure differ only in the wrapped cause. \<^verbatim>\<open>IsRetryableError\<close> classifies this error
  as retryable. So take a call whose request serializes to a non-empty body and whose
  method and URL \<^verbatim>\<open>net/http\<close> accepts, and suppose that each of its exchanges fails:
  attempt \<open>i\<close>, for every \<open>i\<close> up to the retry budget, started in the world the
  attempts before it left behind, gets its request authenticated and then the error
  \<open>causes i\<close> from \<^verbatim>\<open>client.Do\<close>. Such a call uses up the budget: it returns after
  budget + 1 attempts, with the error that wraps the cause of the last one.
\<close>

theorem failed_exchange_is_retried:
  "(\<forall>send client req x x'.
      send client req x = (Inl cause, x') \<longrightarrow>
      DoHTTPRequest send client req x =
        (Inl (SdkError ErrCodeHTTPRequestFailed ''failed to execute http request''
                StatusServiceUnavailable [] cause), x')) \<and>
   IsRetryableError (SdkError ErrCodeHTTPRequestFailed ''failed to execute http request''
                StatusServiceUnavailable [] cause) = Some True \<and>
   (\<forall>source body causes.
      (let requestOpts = fold (\<lambda>opt ro. opt ro) opts defaultRequestOptions;
           override = opt_MaxRetries requestOpts;
           budget = nat (if 0 < override then override else MaxRetries (config c));
           cx' = (case cx of None \<Rightarrow> Background | Some given \<Rightarrow> given);
           req = built_request P c cx' m p body requestOpts
       in request = Some source \<and> json_Marshal P source = Inr body \<and> body \<noteq> [] \<and>
          accepted P c m p requestOpts \<and>
          (\<forall>i\<le>budget. exchange_failure P c req ((world_after P c req ^^ i) (remote (app w)))
                         = Some (causes i)) \<longrightarrow>
          (\<exists>w'. doRequest P c cx m p request opts w =
                  Some (SdkError ErrCodeHTTPRequestFailed ''failed to execute http request''
                          StatusServiceUnavailable [] (causes budget), w') \<and>
                invocations (trace w') = invocations (trace w) + (budget + 1))))"
proof (intro conjI allI)
  fix send :: "http_client \<Rightarrow> http_request \<Rightarrow> 'a \<Rightarrow> (go_error + http_response) \<times> 'a"
  fix client req x x'
  show "send client req x = (Inl cause, x') \<longrightarrow>
      DoHTTPRequest send client req x =
        (Inl (SdkError ErrCodeHTTPRequestFailed ''failed to execute http request''
                StatusServiceUnavailable [] cause), x')"
    by (simp add: DoHTTPRequest_def NewErrorWithCause_def)
next
  show "IsRetryableError (SdkError ErrCodeHTTPRequestFailed ''failed to execute http request''
                StatusServiceUnavailable [] cause) = Some True" by simp
next
  fix source body and causes :: "nat \<Rightarrow> go_error"
  define ro where "ro = fold (\<lambda>opt ro. opt ro) opts defaultRequestOptions"
  define cx' where "cx' = (case cx of None \<Rightarrow> Background | Some given \<Rightarrow> given)"
  define req where "req = built_request P c cx' m p body ro"
  define B where "B = nat (if 0 < opt_MaxRetries ro then opt_MaxRetries ro
                           else MaxRetries (config c))"
  define budget where "budget = (if opt_MaxRetries ro \<le> 0 then
       (if MaxRetries (config c) < 0 then 0 else MaxRetries (config c)) else opt_MaxRetries ro)"
  define w0 where "w0 = w\<lparr>app := logged Serialized (app w)\<rparr>"
  let ?A = "doRequest_attempt P c cx' m p body ro"
  let ?g = "\<lambda>s. the (?A s)"
  let ?E = "\<lambda>cause. SdkError ErrCodeHTTPRequestFailed ''failed to execute http request''
                StatusServiceUnavailable [] cause"
  have main: "\<exists>w'. doRequest P c cx m p request opts w = Some (?E (causes B), w') \<and>
                invocations (trace w') = invocations (trace w) + (B + 1)"
    if h: "request = Some source" "json_Marshal P source = Inr body" "body \<noteq> []"
       "accepted P c m p ro"
       "\<forall>i\<le>B. exchange_failure P c req ((world_after P c req ^^ i) (remote (app w)))
                         = Some (causes i)"
  proof -
    have d: "doRequest P c cx m p request opts w = Retry budget ?A (Some IsRetryableError) w0"
      using h(1,2)
      by (auto simp: doRequest_def SerializeToJSON_def Let_def ro_def cx'_def budget_def w0_def)
    have d': "doRequest P c cx m p request opts w
              = Retry budget (returning ?g) (answering (Some retryable)) w0"
      unfolding d by (rule attempt_Retry[OF h(3)])
    have bB: "(if budget < 0 then 0 else budget) = int B"
      by (auto simp: budget_def B_def)
    have r0: "remote (app w0) = remote (app w)" "trace w0 = trace w"
      by (simp_all add: w0_def logged_def)
    have er: "error_of ?g (app w0) i = ?E (causes i)" if "i \<le> B" for i
      using attempts_failing[OF h(3,4), of cx' i "app w0" "causes i"] h(5) that
      by (simp add: req_def r0)
    from Retry_returning[of budget ?g "Some retryable" w0]
    obtain k w' where r: "Retry budget (returning ?g) (answering (Some retryable)) w0
          = Some (error_of ?g (app w0) k, w')"
      "invocations (trace w') = invocations (trace w0) + Suc k"
      "int k \<le> (if budget < 0 then 0 else budget)"
      "final (Some retryable) (error_of ?g (app w0) k)
         \<or> int k = (if budget < 0 then 0 else budget)" by blast
    have kB: "k \<le> B" using r(3) bB by simp
    have "\<not> final (Some retryable) (error_of ?g (app w0) k)"
      by (simp add: er[OF kB] final_def retryable_def)
    then have k: "k = B" using r(4) bB by simp
    show ?thesis
      using d' r(1,2) r0(2) er[OF kB] k by (intro exI[of _ w']) simp
  qed
  show "let requestOpts = fold (\<lambda>opt ro. opt ro) opts defaultRequestOptions;
           override = opt_MaxRetries requestOpts;
           budget = nat (if 0 < override then override else MaxRetries (config c));
           cx' = (case cx of None \<Rightarrow> Background | Some given \<Rightarrow> given);
           req = built_request P c cx' m p body requestOpts
       in request = Some source \<and> json_Marshal P source = Inr body \<and> body \<noteq> [] \<and>
          accepted P c m p requestOpts \<and>
          (\<forall>i\<le>budget. exchange_failure P c req ((world_after P c req ^^ i) (remote (app w)))
                         = Some (causes i)) \<longrightarrow>
          (\<exists>w'. doRequest P c cx m p request opts w =
                  Some (SdkError ErrCodeHTTPRequestFailed ''failed to execute http request''
                          StatusServiceUnavailable [] (causes budget), w') \<and>
                invocations (trace w') = invocations (trace w) + (budget + 1))"
    unfolding Let_def ro_def[symmetric] cx'_def[symmetric] req_def[symmetric] B_def[symmetric]
    using main by blast
qed

theorem failed_exchange_is_retried_witness:
  "DoHTTPRequest (\<lambda>client req x. (Inl (Foreign ''connection refused''), x))
      (HttpClient (30 * Second))
      \<lparr>Context = Background, Method = ''POST'', URL = ''https://example.com/api'',
       Header = [], Body = Some ''{}''\<rparr> ()
    = (Inl (SdkError ''HTTPRequestFailed'' ''failed to execute http request'' 503 []
              (Foreign ''connection refused'')), ()) \<and>
   \<not> accepted (example_platform (Foreign ''connection refused'') (\<lambda>q. Inr ''{}''))
       example_transport_iam ''BAD METHOD'' ''/api/vikingdb/data/search/random''
       defaultRequestOptions \<and>
   (\<exists>w'. doRequest (example_platform (Foreign ''connection refused'') (\<lambda>q. Inr ''{}''))
      example_transport_iam (Some (Cancellable 1)) ''POST'' ''/api/vikingdb/data/search/random''
      (Some ()) [WithRequestMaxRetries 2] example_world
    = Some (SdkError ''HTTPRequestFailed'' ''failed to execute http request'' 503 []
              (Foreign ''connection refused''), w') \<and>
      invocations (trace w') = 3)"
proof (intro conjI)
  let ?P = "example_platform (Foreign ''connection refused'') (\<lambda>q. Inr ''{}'')"
  show "DoHTTPRequest (\<lambda>client req x. (Inl (Foreign ''connection refused''), x))
      (HttpClient (30 * Second))
      \<lparr>Context = Background, Method = ''POST'', URL = ''https://example.com/api'',
       Header = [], Body = Some ''{}''\<rparr> ()
    = (Inl (SdkError ''HTTPRequestFailed'' ''failed to execute http request'' 503 []
              (Foreign ''connection refused'')), ())"
    using failed_exchange_is_retried [where cause = "Foreign ''connection refused''",
      THEN conjunct1, THEN spec, THEN spec, THEN spec, THEN spec, THEN spec,
      of "\<lambda>client req x. (Inl (Foreign ''connection refused''), x)"
         "HttpClient (30 * Second)"
         "\<lparr>Context = Background, Method = ''POST'', URL = ''https://example.com/api'',
           Header = [], Body = Some ''{}''\<rparr>" "()" "()"]
    by simp
  show "\<not> accepted ?P example_transport_iam ''BAD METHOD'' ''/api/vikingdb/data/search/random''
       defaultRequestOptions"
    by (simp add: accepted_def example_platform_def)
  have h: "exchange_failure ?P example_transport_iam req x = Some (Foreign ''connection refused'')"
    for req x
    by (simp add: exchange_failure_def SignRequestWithRegion_def example_platform_def
          example_transport_iam_def example_transport_def)
  have acc: "accepted ?P example_transport_iam ''POST'' ''/api/vikingdb/data/search/random'' ro"
    for ro by (simp add: accepted_def example_platform_def)
  have m: "json_Marshal ?P () = Inr ''{}''" by (simp add: example_platform_def)
  from failed_exchange_is_retried [where request = "Some ()" and P = ?P
      and c = example_transport_iam and cx = "Some (Cancellable 1)" and m = "''POST''"
      and p = "''/api/vikingdb/data/search/random''" and opts = "[WithRequestMaxRetries 2]"
      and w = example_world,
      THEN conjunct2, THEN conjunct2, THEN spec [where x = "()"],
      THEN spec [where x = "''{}''"],
      THEN spec [where x = "\<lambda>i. Foreign ''connection refused''"]]
  show "\<exists>w'. doRequest ?P
      example_transport_iam (Some (Cancellable 1)) ''POST'' ''/api/vikingdb/data/search/random''
      (Some ()) [WithRequestMaxRetries 2] example_world
    = Some (SdkError ''HTTPRequestFailed'' ''failed to execute http request'' 503 []
              (Foreign ''connection refused''), w') \<and>
      invocations (trace w') = 3"
    unfolding Let_def using h acc m
    by (simp add: WithRequestMaxRetries_def defaultRequestOptions_def invocations_def
          example_world_def)
qed

theorem cancelled_call_counterexample:
  "(\<exists>w'. doRequest (example_platform (Foreign ''context canceled'') (\<lambda>q. Inr ''{}''))
      example_transport (Some (Cancellable 1)) ''POST'' ''/api/vikingdb/data/search/random''
      (Some ()) [] example_world
    = Some (SdkError ''HTTPRequestFailed'' ''failed to execute http request'' 503 []
              (Foreign ''context canceled''), w') \<and>
      invocations (trace w') = 4) \<and>
   IsRetryableError (SdkError ''HTTPRequestFailed'' ''failed to execute http request'' 503 []
              (Foreign ''context canceled'')) = Some True \<and>
   (\<exists>w'. doRequest (example_platform (Foreign ''connection refused'') (\<lambda>q. Inr ''{}''))
      example_transport (Some (Cancellable 1)) ''POST'' ''/api/vikingdb/data/search/random''
      (Some ()) [] example_world
    = Some (SdkError ''HTTPRequestFailed'' ''failed to execute http request'' 503 []
              (Foreign ''connection refused''), w'))"
  by (simp add: doRequest_def SerializeToJSON_def Let_def defaultRequestOptions_def
        DefaultConfig_def Retry_def retry_loop.simps invoke_def backoff_def Int63n_def Sleep_def
        defaultInitialBackoff_def defaultMaxBackoff_def backoffMultiplier_def Second_def
        Millisecond_def doRequest_attempt_def buildRequest_def NewRequestWithContext_def
        Header_Set_def logged_def DoHTTPRequest_def NewErrorWithCause_def invocations_def
        requestIDHeader_def example_platform_def example_transport_def example_world_def)

end
